theory Spec2Isabelle
  imports Complex_Main "HOL-Library.Sublist"
begin

section \<open>Python values, dictionaries and exceptions\<close>

text \<open>
  The notebook \<^verbatim>\<open>Models/Model_Validation_and_Interpretation.ipynb\<close> holds four functions:
  \<^verbatim>\<open>load_model_with_metadata\<close>, \<^verbatim>\<open>prepare_input_data\<close>, \<^verbatim>\<open>predict_fraud\<close> and
  \<^verbatim>\<open>main\<close>. Each is embedded below as a HOL function of the same name.

  A raw attribute value is a Python number or a category string. The program never
  computes with such a value: it stores it and formats it with \<^verbatim>\<open>str\<close>. An integer is an
  unbounded \<open>int\<close>; a float is kept as the text \<^verbatim>\<open>repr\<close> gives for it (\<open>FloatV ''0.9''\<close> is
  the float \<^verbatim>\<open>0.9\<close>), which is what \<^verbatim>\<open>str\<close> returns.
\<close>

datatype scalar = IntV int | FloatV string | StrV string

text \<open>
  A Python \<^verbatim>\<open>dict\<close> keeps its keys in insertion order and each key once. It is an
  association list read from the left; \<open>map_of\<close> is the subscript, \<open>map fst\<close> the
  iteration over the keys.
\<close>

type_synonym 'v dict = "(string \<times> 'v) list"

datatype exn_kind =
  ValueError | TypeError | KeyError | IndexError | AttributeError | FileNotFoundError | RuntimeError

text \<open>An exception: its class and the text \<^verbatim>\<open>str(e)\<close> returns.\<close>

datatype exn = Exn (kind: exn_kind) (message: string)

text \<open>
  A text between single quotes, as the messages write \<^verbatim>\<open>'{feature}'\<close> and as Python
  shows a plain name.
\<close>

definition squote :: "string \<Rightarrow> string" where
  "squote s = [CHR 0x27] @ s @ [CHR 0x27]"

text \<open>
  The keys in order, and the subscript \<^verbatim>\<open>d[k]\<close>, which raises \<^verbatim>\<open>KeyError(k)\<close> on a key that
  is absent; the text of that exception is the key as Python shows it.
\<close>

definition keys :: "'v dict \<Rightarrow> string list" where
  "keys d = map fst d"

definition getitem :: "'v dict \<Rightarrow> string \<Rightarrow> exn + 'v" where
  "getitem d k =
     (case map_of d k of None \<Rightarrow> Inl (Exn KeyError (squote k)) | Some v \<Rightarrow> Inr v)"

subsection \<open>Decimal text of an integer\<close>

text \<open>\<^verbatim>\<open>str\<close> of an integer; \<open>digit_char\<close> is only applied to a number below ten.\<close>

definition digit_char :: "nat \<Rightarrow> char" where
  "digit_char d = ''0123456789'' ! d"

function str_nat :: "nat \<Rightarrow> string" where
  "str_nat n = (if n < 10 then [digit_char n] else str_nat (n div 10) @ [digit_char (n mod 10)])"
  by pat_completeness auto
termination
  by (relation "measure id") auto

declare str_nat.simps [simp del]

definition str_int :: "int \<Rightarrow> string" where
  "str_int i = (if i < 0 then CHR ''-'' # str_nat (nat (- i)) else str_nat (nat i))"

text \<open>\<^verbatim>\<open>str(value)\<close>, as the f-strings of the builder apply it.\<close>

fun py_str :: "scalar \<Rightarrow> string" where
  "py_str (IntV i) = str_int i"
| "py_str (FloatV r) = r"
| "py_str (StrV s) = s"

section \<open>The feature vector builder\<close>

text \<open>
  A \<^verbatim>\<open>pandas.DataFrame\<close>: the column labels in order and the rows, each with one cell per
  column. A cell is \<open>None\<close> where pandas has no value for it (it shows \<^verbatim>\<open>NaN\<close>).
\<close>

record dataframe =
  columns :: "string list"
  rows :: "scalar option list list"

text \<open>
  \<^verbatim>\<open>pd.DataFrame([feature_values], columns=expected_features)\<close>: one row, one cell per
  requested column label, the cell read from the dictionary under that label.
\<close>

definition DataFrame :: "(string \<rightharpoonup> scalar) \<Rightarrow> string list \<Rightarrow> dataframe" where
  "DataFrame data cols = \<lparr>columns = cols, rows = [map data cols]\<rparr>"

text \<open>The cell of the first row under a column label (the first such column).\<close>

definition cell :: "dataframe \<Rightarrow> string \<Rightarrow> scalar option" where
  "cell df c =
     (case rows df of
        [] \<Rightarrow> None
      | r # _ \<Rightarrow> (case map_of (zip (columns df) r) c of None \<Rightarrow> None | Some v \<Rightarrow> v))"

text \<open>
  The dictionary \<^verbatim>\<open>feature_values\<close>: only its subscripts are read afterwards, so it is a
  map. The printed lines are collected in order, one entry per \<^verbatim>\<open>print\<close> call.
\<close>

type_synonym feature_values = "string \<rightharpoonup> scalar"

definition init_feature_values :: "string list \<Rightarrow> feature_values" where
  "init_feature_values expected_features =
     map_of (map (\<lambda>feature. (feature, IntV 0)) expected_features)"

definition numerical_warning :: "string \<Rightarrow> string" where
  "numerical_warning feature =
     ''Warning: Numerical feature '' @ squote feature @ '' not used in model''"

definition categorical_warning :: "scalar \<Rightarrow> string \<Rightarrow> string" where
  "categorical_warning value original_feature =
     ''Warning: Category '' @ squote (py_str value) @ '' not found in model for feature ''
       @ squote original_feature"

text \<open>
  \<^verbatim>\<open>[f for f in input_dict if f not in categorical_mapping]\<close>. With the default
  \<^verbatim>\<open>categorical_mapping=None\<close> the membership test raises on the first key; over an empty
  \<^verbatim>\<open>input_dict\<close> it is never evaluated.
\<close>

definition numerical_features :: "scalar dict \<Rightarrow> string dict option \<Rightarrow> exn + string list" where
  "numerical_features input_dict categorical_mapping =
     (case categorical_mapping of
        None \<Rightarrow>
          (if input_dict = [] then Inr []
           else Inl (Exn TypeError ''argument of type 'NoneType' is not iterable''))
      | Some cm \<Rightarrow> Inr (filter (\<lambda>f. f \<notin> set (keys cm)) (keys input_dict)))"

text \<open>The loop over \<^verbatim>\<open>numerical_features\<close> (lines 74 to 78).\<close>

fun numerical_loop ::
  "scalar dict \<Rightarrow> string list \<Rightarrow> string list \<Rightarrow> feature_values \<times> string list
     \<Rightarrow> exn + feature_values \<times> string list" where
  "numerical_loop input_dict expected_features [] st = Inr st"
| "numerical_loop input_dict expected_features (feature # rest) (fv, out) =
     (if feature \<in> set expected_features then
        (case getitem input_dict feature of
           Inl e \<Rightarrow> Inl e
         | Inr v \<Rightarrow> numerical_loop input_dict expected_features rest (fv(feature \<mapsto> v), out))
      else
        numerical_loop input_dict expected_features rest
          (fv, out @ [numerical_warning feature]))"

text \<open>The loop over \<^verbatim>\<open>categorical_mapping.items()\<close> (lines 82 to 90).\<close>

fun categorical_loop ::
  "scalar dict \<Rightarrow> string list \<Rightarrow> string dict \<Rightarrow> feature_values \<times> string list
     \<Rightarrow> feature_values \<times> string list" where
  "categorical_loop input_dict expected_features [] st = st"
| "categorical_loop input_dict expected_features ((original_feature, encoded_prefix) # rest)
     (fv, out) =
     (case map_of input_dict original_feature of
        None \<Rightarrow> categorical_loop input_dict expected_features rest (fv, out)
      | Some value \<Rightarrow>
          (let encoded_column = encoded_prefix @ ''_'' @ py_str value in
           if encoded_column \<in> set expected_features then
             categorical_loop input_dict expected_features rest
               (fv(encoded_column \<mapsto> IntV 1), out)
           else
             categorical_loop input_dict expected_features rest
               (fv, out @ [categorical_warning value original_feature])))"

text \<open>
  \<^verbatim>\<open>prepare_input_data(input_dict, expected_features, categorical_mapping=None)\<close>. The
  result is the exception raised, or the frame returned together with the lines printed.
  \<^verbatim>\<open>if categorical_mapping:\<close> skips the second loop for \<^verbatim>\<open>None\<close> and for an empty mapping.
\<close>

definition prepare_input_data ::
  "scalar dict \<Rightarrow> string list \<Rightarrow> string dict option \<Rightarrow> exn + dataframe \<times> string list" where
  "prepare_input_data input_dict expected_features categorical_mapping =
     (if expected_features = [] then Inl (Exn ValueError ''No expected features provided'')
      else
        (case numerical_features input_dict categorical_mapping of
           Inl e \<Rightarrow> Inl e
         | Inr numerical \<Rightarrow>
             (case numerical_loop input_dict expected_features numerical
                     (init_feature_values expected_features, []) of
                Inl e \<Rightarrow> Inl e
              | Inr st \<Rightarrow>
                  (let (feature_values, out) =
                         (case categorical_mapping of
                            None \<Rightarrow> st
                          | Some cm \<Rightarrow>
                              if cm = [] then st
                              else categorical_loop input_dict expected_features cm st)
                   in Inr (DataFrame feature_values expected_features, out)))))"

section \<open>The predictor\<close>

text \<open>
  The loaded model is a scikit-learn estimator, whose code is not part of the notebook. It
  is the two operations the notebook calls, each returning an array or raising, and the
  two properties \<^verbatim>\<open>main\<close> inspects: the attribute \<^verbatim>\<open>feature_names_in_\<close> (absent, or an
  array of names) and whether the object is a \<^verbatim>\<open>Pipeline\<close>. A predicted label is a
  scalar or Python's \<^verbatim>\<open>None\<close>; a probability is a finite float, taken as the rational it
  denotes, so \<^verbatim>\<open>>\<close> on floats is \<open><\<close> on \<open>rat\<close>.
\<close>

record estimator =
  class_name :: string
  feature_names_in :: "string list option"
  is_pipeline :: bool
  predict :: "dataframe \<Rightarrow> exn + scalar option list"
  predict_proba :: "dataframe \<Rightarrow> exn + rat list list"

text \<open>
  What \<^verbatim>\<open>joblib.load\<close> may return, and what the metadata slots may hold: \<^verbatim>\<open>None\<close>, a list
  of names, a NumPy array of names, a \<^verbatim>\<open>dict\<close>, or an estimator.
\<close>

datatype pyobj =
    PyNone
  | PyList "string list"
  | PyArray "string list"
  | PyDict "(string \<times> pyobj) list"
  | PyModel estimator

text \<open>The name of the object's class, as error messages give it.\<close>

fun type_name :: "pyobj \<Rightarrow> string" where
  "type_name PyNone = ''NoneType''"
| "type_name (PyList _) = ''list''"
| "type_name (PyArray _) = ''numpy.ndarray''"
| "type_name (PyDict _) = ''dict''"
| "type_name (PyModel m) = class_name m"

text \<open>\<^verbatim>\<open>a[0]\<close> on a one-dimensional array.\<close>

fun index0 :: "'a list \<Rightarrow> exn + 'a" where
  "index0 [] = Inl (Exn IndexError ''index 0 is out of bounds for axis 0 with size 0'')"
| "index0 (x # _) = Inr x"

text \<open>\<^verbatim>\<open>a[:, 1]\<close> on a two-dimensional array, given by its rows.\<close>

fun column1 :: "'a list list \<Rightarrow> exn + 'a list" where
  "column1 [] = Inr []"
| "column1 (r # rs) =
     (if length r \<le> 1 then
        Inl (Exn IndexError
               (''index 1 is out of bounds for axis 1 with size '' @ str_nat (length r)))
      else (case column1 rs of Inl e \<Rightarrow> Inl e | Inr c \<Rightarrow> Inr (r ! 1 # c)))"

text \<open>The body of the \<^verbatim>\<open>try\<close> of \<^verbatim>\<open>predict_fraud\<close> (lines 115 to 117).\<close>

definition predict_fraud_try :: "pyobj \<Rightarrow> dataframe \<Rightarrow> exn + scalar option \<times> rat" where
  "predict_fraud_try model input_data =
     (case model of
        PyModel m \<Rightarrow>
          (case predict m input_data of
             Inl e \<Rightarrow> Inl e
           | Inr prediction \<Rightarrow>
               (case predict_proba m input_data of
                  Inl e \<Rightarrow> Inl e
                | Inr proba \<Rightarrow>
                    (case column1 proba of
                       Inl e \<Rightarrow> Inl e
                     | Inr probability \<Rightarrow>
                         (case index0 prediction of
                            Inl e \<Rightarrow> Inl e
                          | Inr prediction0 \<Rightarrow>
                              (case index0 probability of
                                 Inl e \<Rightarrow> Inl e
                               | Inr probability0 \<Rightarrow> Inr (prediction0, probability0))))))
      | _ \<Rightarrow>
          Inl (Exn AttributeError
                 (squote (type_name model) @ '' object has no attribute ''
                    @ squote ''predict'')))"

text \<open>\<^verbatim>\<open>except Exception as e: raise ValueError(f"Prediction error: {str(e)}")\<close>\<close>

definition predict_fraud :: "pyobj \<Rightarrow> dataframe \<Rightarrow> exn + scalar option \<times> rat" where
  "predict_fraud model input_data =
     (case predict_fraud_try model input_data of
        Inl e \<Rightarrow> Inl (Exn ValueError (''Prediction error: '' @ message e))
      | Inr r \<Rightarrow> Inr r)"

text \<open>
  How Python shows a collection of plain names (no quote or backslash in them): each in
  single quotes, separated by a comma and a space. The order in which a set is printed
  is not fixed by Python; here it is the order of the list.
\<close>

definition comma_separated :: "string list \<Rightarrow> string" where
  "comma_separated names =
     concat (map (\<lambda>(i, n). (if i = 0 then [] else '', '') @ squote n) (enumerate 0 names))"

definition set_repr :: "string list \<Rightarrow> string" where
  "set_repr names = ''{'' @ comma_separated names @ ''}''"

text \<open>
  Modelled from the spec: the training-time columns of the trained model that a frame
  lacks. The trained model (the artifact \<^verbatim>\<open>assets/fraud_detection_model_with_metadata.pkl\<close>)
  is not in the source; the spec speaks of the vector's columns not matching "the
  model's training-time columns (e.g., missing or renamed columns)".
\<close>

definition missing_columns :: "string list \<Rightarrow> dataframe \<Rightarrow> string list" where
  "missing_columns training_columns X = filter (\<lambda>c. c \<notin> set (columns X)) training_columns"

text \<open>
  Modelled from the spec: the check the trained model makes of a frame before it
  predicts. The spec says that prediction then "fails with a "columns are missing" error
  naming the missing raw keys"; the message is that of the recorded run.
\<close>

definition check_columns :: "string list \<Rightarrow> dataframe \<Rightarrow> exn + unit" where
  "check_columns training_columns X =
     (if missing_columns training_columns X = [] then Inr ()
      else Inl (Exn ValueError
                  (''columns are missing: '' @ set_repr (missing_columns training_columns X))))"

text \<open>
  Modelled from the spec: a model trained on the columns \<open>training_columns\<close>. The trained
  model is not in the source. Both of its operations refuse a frame that lacks a training
  column, as the spec says of the recorded run, and otherwise answer as \<open>fitted\<close> does.
\<close>

definition column_checking :: "string list \<Rightarrow> estimator \<Rightarrow> estimator" where
  "column_checking training_columns fitted =
     fitted\<lparr>predict := (\<lambda>X. case check_columns training_columns X of
                               Inl e \<Rightarrow> Inl e | Inr _ \<Rightarrow> predict fitted X),
            predict_proba := (\<lambda>X. case check_columns training_columns X of
                                     Inl e \<Rightarrow> Inl e | Inr _ \<Rightarrow> predict_proba fitted X)\<rparr>"

section \<open>The model loader\<close>

text \<open>\<^verbatim>\<open>d.get(k, default)\<close>\<close>

definition dict_get :: "'v dict \<Rightarrow> string \<Rightarrow> 'v \<Rightarrow> 'v" where
  "dict_get d k dflt = (case map_of d k of None \<Rightarrow> dflt | Some v \<Rightarrow> v)"

text \<open>
  \<^verbatim>\<open>load_model_with_metadata(model_path)\<close>. The file system and \<^verbatim>\<open>joblib.load\<close> are the
  parameter \<open>joblib_load\<close>: the object deserialized from a path, or the exception raised.
\<close>

definition load_model_with_metadata ::
  "(string \<Rightarrow> exn + pyobj) \<Rightarrow> string \<Rightarrow> exn + pyobj \<times> pyobj \<times> pyobj \<times> pyobj" where
  "load_model_with_metadata joblib_load model_path =
     (case joblib_load model_path of
        Inl e \<Rightarrow> Inl (Exn ValueError (''Error loading model: '' @ message e))
      | Inr model_data \<Rightarrow>
          (case model_data of
             PyDict d \<Rightarrow>
               (case map_of d ''model'' of
                  Some model \<Rightarrow>
                    Inr (model,
                         dict_get d ''feature_names'' (PyList []),
                         dict_get d ''categorical_features'' (PyList []),
                         dict_get d ''training_columns'' (PyList []))
                | None \<Rightarrow> Inr (model_data, PyList [], PyList [], PyList []))
           | _ \<Rightarrow> Inr (model_data, PyList [], PyList [], PyList [])))"

section \<open>The orchestration\<close>

text \<open>The constants of the notebook.\<close>

definition CATEGORICAL_MAPPING :: "string dict" where
  "CATEGORICAL_MAPPING =
     [(''Transaction_Type'', ''Transaction_Type''),
      (''Device_Type'', ''Device_Type''),
      (''Location'', ''Location''),
      (''Merchant_Category'', ''Merchant_Category''),
      (''Authentication_Method'', ''Authentication_Method'')]"

definition MODEL_PATH :: string where
  "MODEL_PATH = ''../assets/fraud_detection_model_with_metadata.pkl''"

text \<open>The example record; \<^verbatim>\<open>1500/5000\<close> is the float \<^verbatim>\<open>0.3\<close> and \<^verbatim>\<open>1500-200\<close> the integer 1300.\<close>

definition transaction_data :: "scalar dict" where
  "transaction_data =
     [(''Transaction_Amount'', IntV 1500),
      (''Transaction_Type'', StrV ''Online''),
      (''Account_Balance'', IntV 5000),
      (''Device_Type'', StrV ''Mobile''),
      (''Location'', StrV ''New York''),
      (''Merchant_Category'', StrV ''Electronics''),
      (''IP_Address_Flag'', IntV 1),
      (''Daily_Transaction_Count'', IntV 10),
      (''Avg_Transaction_Amount_7d'', IntV 200),
      (''Failed_Transaction_Count_7d'', IntV 3),
      (''Transaction_Distance'', IntV 1500),
      (''Authentication_Method'', StrV ''Password''),
      (''Risk_Score'', FloatV ''0.9''),
      (''Is_Weekend'', IntV 0),
      (''Hour'', IntV 3),
      (''DayOfWeek'', IntV 4),
      (''Is_Night'', IntV 1),
      (''Amount_to_Balance_Ratio'', FloatV ''0.3''),
      (''Amount_Deviation'', IntV 1300),
      (''High_Risk_Category'', IntV 1),
      (''Previous_Fraudulent_Activity'', IntV 0)]"

text \<open>
  What \<^verbatim>\<open>main\<close> needs from outside: the deserializer, the text \<^verbatim>\<open>print\<close> shows for the
  feature names, the text of a probability under the format \<^verbatim>\<open>.4f\<close>, and the exception
  the installed NumPy raises when asked for the truth value of an empty array: none
  before version 2.2, where such an array is false, and a \<^verbatim>\<open>ValueError\<close> from then on.
\<close>

record environment =
  joblib_load :: "string \<Rightarrow> exn + pyobj"
  show_features :: "pyobj \<Rightarrow> string"
  format_4f :: "rat \<Rightarrow> string"
  empty_array_error :: "exn option"

text \<open>What a run leaves behind: the lines on each stream and the exit status.\<close>

record process =
  stdout :: "string list"
  stderr :: "string list"
  exit_code :: int

text \<open>
  The truth value \<^verbatim>\<open>if not feature_names\<close> asks for. A NumPy array with more than one
  element has none and raises; with one element it has the element's; for an empty one
  the answer is the environment's.
\<close>

fun truth :: "environment \<Rightarrow> pyobj \<Rightarrow> exn + bool" where
  "truth env PyNone = Inr False"
| "truth env (PyList xs) = Inr (xs \<noteq> [])"
| "truth env (PyDict d) = Inr (d \<noteq> [])"
| "truth env (PyModel m) = Inr True"
| "truth env (PyArray []) = (case empty_array_error env of None \<Rightarrow> Inr False | Some e \<Rightarrow> Inl e)"
| "truth env (PyArray [x]) = Inr (x \<noteq> [])"
| "truth env (PyArray (x # y # zs)) =
     Inl (Exn ValueError
       ''The truth value of an array with more than one element is ambiguous. Use a.any() or a.all()'')"

text \<open>The names \<^verbatim>\<open>for feature in expected_features\<close> runs over.\<close>

fun names_of :: "pyobj \<Rightarrow> exn + string list" where
  "names_of (PyList xs) = Inr xs"
| "names_of (PyArray xs) = Inr xs"
| "names_of (PyDict d) = Inr (keys d)"
| "names_of obj = Inl (Exn TypeError (squote (type_name obj) @ '' object is not iterable''))"

text \<open>
  \<^verbatim>\<open>model.feature_names_in_\<close> where \<^verbatim>\<open>hasattr(model, 'feature_names_in_')\<close> holds, and
  \<^verbatim>\<open>isinstance(model, Pipeline)\<close>.
\<close>

fun getattr_feature_names_in :: "pyobj \<Rightarrow> string list option" where
  "getattr_feature_names_in (PyModel m) = feature_names_in m"
| "getattr_feature_names_in _ = None"

fun isinstance_Pipeline :: "pyobj \<Rightarrow> bool" where
  "isinstance_Pipeline (PyModel m) = is_pipeline m"
| "isinstance_Pipeline _ = False"

text \<open>
  Lines 170 to 179: the feature names of the metadata, else those the model records.
  The result is the lines printed and the names settled on, or the exception raised.
\<close>

definition determine_features ::
  "environment \<Rightarrow> pyobj \<Rightarrow> pyobj \<Rightarrow> string list \<times> (exn + pyobj)" where
  "determine_features env model feature_names =
     (case truth env feature_names of
        Inl e \<Rightarrow> ([], Inl e)
      | Inr t \<Rightarrow>
          (let (feature_names, out) =
                 (if \<not> t then
                    (let out = [''Warning: No feature names found in model metadata''] in
                     case getattr_feature_names_in model of
                       Some names \<Rightarrow> (PyArray names, out)
                     | None \<Rightarrow>
                         if isinstance_Pipeline model then
                           (feature_names,
                            out @ [''Model is a pipeline but no feature names available''])
                         else (feature_names, out))
                  else (feature_names, []))
           in (case truth env feature_names of
                 Inl e \<Rightarrow> (out, Inl e)
               | Inr t' \<Rightarrow>
                   if \<not> t' then
                     (out, Inl (Exn ValueError
                                  ''Could not determine required features for model''))
                   else (out, Inr feature_names))))"

text \<open>\<^verbatim>\<open>threshold = 0.5\<close>\<close>

definition threshold :: rat where
  "threshold = 1 / 2"

text \<open>\<^verbatim>\<open>prediction == 1\<close>: true of the integer 1 and of the float 1.0.\<close>

fun equals_one :: "scalar \<Rightarrow> bool" where
  "equals_one (IntV i) = (i = 1)"
| "equals_one (FloatV r) = (r = ''1.0'')"
| "equals_one (StrV s) = False"

text \<open>Lines 193 to 203: the lines printed for a prediction.\<close>

definition report :: "environment \<Rightarrow> scalar option \<Rightarrow> rat \<Rightarrow> string list" where
  "report env prediction probability =
     (case prediction of
        None \<Rightarrow> []
      | Some p \<Rightarrow>
          [CHR 0x0A # ''Prediction Results:'',
           ''Fraud Prediction: '' @ py_str p @ '' (''
             @ (if equals_one p then ''Fraud'' else ''Legitimate'') @ '')'',
           ''Fraud Probability: '' @ format_4f env probability,
           (if probability > threshold then ''ALERT: This transaction is likely fraudulent!''
            else ''This transaction appears legitimate.'')])"

text \<open>
  The body of the \<^verbatim>\<open>try\<close> of \<^verbatim>\<open>main\<close>: the lines printed to standard output, and the
  exception that ended it, if any.
\<close>

definition main_try :: "environment \<Rightarrow> string list \<times> exn option" where
  "main_try env =
     (case load_model_with_metadata (joblib_load env) MODEL_PATH of
        Inl e \<Rightarrow> ([], Some e)
      | Inr (model, feature_names, categorical_features, training_columns) \<Rightarrow>
          (let out = [''Model loaded successfully''] in
           case determine_features env model feature_names of
             (printed, Inl e) \<Rightarrow> (out @ printed, Some e)
           | (printed, Inr feature_names) \<Rightarrow>
               (let out = out @ printed
                            @ [''Expected features: '' @ show_features env feature_names] in
                case names_of feature_names of
                  Inl e \<Rightarrow> (out, Some e)
                | Inr expected_features \<Rightarrow>
                    (case prepare_input_data transaction_data expected_features
                            (Some CATEGORICAL_MAPPING) of
                       Inl e \<Rightarrow> (out, Some e)
                     | Inr (input_df, printed') \<Rightarrow>
                         (let out = out @ printed' in
                          case predict_fraud model input_df of
                            Inl e \<Rightarrow> (out, Some e)
                          | Inr (prediction, probability) \<Rightarrow>
                              (out @ report env prediction probability, None))))))"

text \<open>
  \<^verbatim>\<open>main()\<close>: an exception of the body is printed to standard error and the process ends
  with \<^verbatim>\<open>sys.exit(1)\<close>; otherwise \<^verbatim>\<open>main\<close> returns and the status is 0.
\<close>

definition main :: "environment \<Rightarrow> process" where
  "main env =
     (case main_try env of
        (out, Some e) \<Rightarrow>
          \<lparr>stdout = out, stderr = [''Error: '' @ message e], exit_code = 1\<rparr>
      | (out, None) \<Rightarrow> \<lparr>stdout = out, stderr = [], exit_code = 0\<rparr>)"

section \<open>The reference run\<close>

text \<open>
  The expected features the notebook's recorded run printed (line 221, in its output
  cell). That run ended with \<^verbatim>\<open>Error: Prediction error: columns are missing: {...}\<close> on
  standard error, the set being the five keys of \<^verbatim>\<open>CATEGORICAL_MAPPING\<close>, and with
  \<^verbatim>\<open>SystemExit: 1\<close>.
\<close>

definition reference_features :: "string list" where
  "reference_features =
     [''Transaction_Amount'', ''Account_Balance'', ''IP_Address_Flag'',
      ''Previous_Fraudulent_Activity'', ''Daily_Transaction_Count'',
      ''Avg_Transaction_Amount_7d'', ''Failed_Transaction_Count_7d'',
      ''Transaction_Distance'', ''Risk_Score'', ''Is_Weekend'', ''Hour'', ''DayOfWeek'',
      ''Is_Night'', ''Amount_to_Balance_Ratio'', ''Amount_Deviation'', ''High_Risk_Category'',
      ''Transaction_Type_ATM Withdrawal'', ''Transaction_Type_Bank Transfer'',
      ''Transaction_Type_Online'', ''Transaction_Type_POS'', ''Device_Type_Laptop'',
      ''Device_Type_Mobile'', ''Device_Type_Tablet'', ''Location_London'', ''Location_Mumbai'',
      ''Location_New York'', ''Location_Sydney'', ''Location_Tokyo'',
      ''Merchant_Category_Clothing'', ''Merchant_Category_Electronics'',
      ''Merchant_Category_Groceries'', ''Merchant_Category_Restaurants'',
      ''Merchant_Category_Travel'', ''Authentication_Method_Biometric'',
      ''Authentication_Method_OTP'', ''Authentication_Method_PIN'',
      ''Authentication_Method_Password'']"

text \<open>
  Inputs for the instances below. A fitted model that answers every frame alike. An
  environment in which \<^verbatim>\<open>joblib.load\<close> finds one object at \<^verbatim>\<open>MODEL_PATH\<close> and no other
  file, a list of names is shown as Python shows it (the instances state the text shown
  of nothing else),
  a probability is written with four decimals (the nearest such number to it, and the
  even one of two equally near), and an empty array is false (no instance has one).
  Last, the raw columns of the example record, the five categorical ones first and in
  the order in which the recorded run printed them.
\<close>

definition constant_model :: "scalar option list \<Rightarrow> rat list list \<Rightarrow> estimator" where
  "constant_model labels proba =
     \<lparr>class_name = ''Pipeline'', feature_names_in = None, is_pipeline = True,
      predict = (\<lambda>X. Inr labels), predict_proba = (\<lambda>X. Inr proba)\<rparr>"

definition list_repr :: "string list \<Rightarrow> string" where
  "list_repr names = ''['' @ comma_separated names @ '']''"

definition round_half_even :: "rat \<Rightarrow> int" where
  "round_half_even x =
     (let f = \<lfloor>x\<rfloor>; d = x - of_int f
      in if d < 1 / 2 then f else if 1 / 2 < d then f + 1 else if even f then f else f + 1)"

definition four_decimals :: "rat \<Rightarrow> string" where
  "four_decimals q =
     (let n = nat (round_half_even (\<bar>q\<bar> * 10000))
      in (if q < 0 then ''-'' else []) @ str_nat (n div 10000) @ ''.''
         @ [digit_char (n div 1000 mod 10), digit_char (n div 100 mod 10),
            digit_char (n div 10 mod 10), digit_char (n mod 10)])"

definition file_environment :: "pyobj \<Rightarrow> environment" where
  "file_environment obj =
     \<lparr>joblib_load =
        (\<lambda>path. if path = MODEL_PATH then Inr obj
                 else Inl (Exn FileNotFoundError
                             (''[Errno 2] No such file or directory: '' @ squote path))),
      show_features = (\<lambda>names. case names of PyList xs \<Rightarrow> list_repr xs | _ \<Rightarrow> ''...''),
      format_4f = four_decimals,
      empty_array_error = None\<rparr>"

definition recorded_training_columns :: "string list" where
  "recorded_training_columns =
     [''Device_Type'', ''Authentication_Method'', ''Merchant_Category'', ''Location'',
      ''Transaction_Type'', ''Transaction_Amount'', ''Account_Balance'', ''IP_Address_Flag'',
      ''Daily_Transaction_Count'', ''Avg_Transaction_Amount_7d'',
      ''Failed_Transaction_Count_7d'', ''Transaction_Distance'', ''Risk_Score'', ''Is_Weekend'',
      ''Hour'', ''DayOfWeek'', ''Is_Night'', ''Amount_to_Balance_Ratio'', ''Amount_Deviation'',
      ''High_Risk_Category'', ''Previous_Fraudulent_Activity'']"

section \<open>Notions the properties are stated with\<close>

text \<open>The record without one attribute.\<close>

definition without :: "string \<Rightarrow> 'v dict \<Rightarrow> 'v dict" where
  "without k d = filter (\<lambda>kv. fst kv \<noteq> k) d"

text \<open>
  The one-hot column names the categorical attributes of a record give rise to, and the
  warnings of the second loop, in the order of the mapping.
\<close>

definition derived_columns :: "scalar dict \<Rightarrow> string dict \<Rightarrow> string list" where
  "derived_columns input_dict cm =
     concat (map (\<lambda>(r, p). case map_of input_dict r of
                              None \<Rightarrow> []
                            | Some v \<Rightarrow> [p @ ''_'' @ py_str v]) cm)"

definition categorical_warnings :: "scalar dict \<Rightarrow> string list \<Rightarrow> string dict \<Rightarrow> string list" where
  "categorical_warnings input_dict ef cm =
     concat (map (\<lambda>(r, p). case map_of input_dict r of
                              None \<Rightarrow> []
                            | Some v \<Rightarrow> if p @ ''_'' @ py_str v \<in> set ef then []
                                        else [categorical_warning v r]) cm)"

text \<open>The values \<^verbatim>\<open>feature_values\<close> holds after the second loop, in closed form.\<close>

definition final_values :: "scalar dict \<Rightarrow> string list \<Rightarrow> string dict \<Rightarrow> feature_values" where
  "final_values input_dict ef cm =
     (\<lambda>c. if c \<in> set (derived_columns input_dict cm) \<and> c \<in> set ef then Some (IntV 1)
          else if c \<in> set (keys input_dict) \<and> c \<notin> set (keys cm) \<and> c \<in> set ef
               then map_of input_dict c
          else if c \<in> set ef then Some (IntV 0) else None)"

text \<open>The lines the builder prints: the warnings of the first loop, then of the second.\<close>

definition builder_output :: "scalar dict \<Rightarrow> string list \<Rightarrow> string dict \<Rightarrow> string list" where
  "builder_output input_dict ef cm =
     map numerical_warning
       (filter (\<lambda>f. f \<notin> set ef) (filter (\<lambda>f. f \<notin> set (keys cm)) (keys input_dict)))
     @ categorical_warnings input_dict ef cm"

section \<open>The builder in closed form\<close>

lemma in_derived_columns:
  "c \<in> set (derived_columns input_dict cm) \<longleftrightarrow>
     (\<exists>r p v. (r, p) \<in> set cm \<and> map_of input_dict r = Some v \<and> c = p @ ''_'' @ py_str v)"
proof
  assume "c \<in> set (derived_columns input_dict cm)"
  then obtain r p where rp: "(r, p) \<in> set cm"
    and c: "c \<in> set (case map_of input_dict r of None \<Rightarrow> [] | Some v \<Rightarrow> [p @ ''_'' @ py_str v])"
    by (auto simp: derived_columns_def)
  from c obtain v where "map_of input_dict r = Some v" "c = p @ ''_'' @ py_str v"
    by (cases "map_of input_dict r") auto
  with rp show "\<exists>r p v. (r, p) \<in> set cm \<and> map_of input_dict r = Some v \<and> c = p @ ''_'' @ py_str v"
    by blast
next
  assume "\<exists>r p v. (r, p) \<in> set cm \<and> map_of input_dict r = Some v \<and> c = p @ ''_'' @ py_str v"
  then obtain r p v where "(r, p) \<in> set cm" "map_of input_dict r = Some v" "c = p @ ''_'' @ py_str v"
    by blast
  then show "c \<in> set (derived_columns input_dict cm)"
    by (force simp: derived_columns_def)
qed

lemma derived_columns_Nil: "derived_columns input_dict [] = []"
  by (simp add: derived_columns_def)

lemma derived_columns_Cons:
  "derived_columns input_dict ((r, p) # cm) =
     (case map_of input_dict r of None \<Rightarrow> [] | Some v \<Rightarrow> [p @ ''_'' @ py_str v])
       @ derived_columns input_dict cm"
  by (simp add: derived_columns_def)

lemma map_of_keys: "k \<in> set (keys d) \<Longrightarrow> \<exists>v. map_of d k = Some v"
  by (induction d) (auto simp: keys_def)

lemma numerical_loop_closed:
  "set fs \<subseteq> set (keys input_dict) \<Longrightarrow>
   numerical_loop input_dict ef fs (fv, out) =
     Inr (\<lambda>c. if c \<in> set fs \<and> c \<in> set ef then map_of input_dict c else fv c,
          out @ map numerical_warning (filter (\<lambda>f. f \<notin> set ef) fs))"
proof (induction fs arbitrary: fv out)
  case Nil
  then show ?case by simp
next
  case (Cons f fs)
  from Cons.prems obtain v where v: "map_of input_dict f = Some v"
    using map_of_keys [of f input_dict] by auto
  from Cons.prems have sub: "set fs \<subseteq> set (keys input_dict)" by simp
  show ?case
  proof (cases "f \<in> set ef")
    case True
    then show ?thesis
      by (simp add: getitem_def v Cons.IH [OF sub]) (auto simp: fun_eq_iff v)
  next
    case False
    then show ?thesis
      by (simp add: Cons.IH [OF sub]) (auto simp: fun_eq_iff)
  qed
qed

lemma categorical_loop_closed:
  "categorical_loop input_dict ef cm (fv, out) =
     (\<lambda>c. if c \<in> set (derived_columns input_dict cm) \<and> c \<in> set ef then Some (IntV 1)
          else fv c,
      out @ categorical_warnings input_dict ef cm)"
proof (induction cm arbitrary: fv out)
  case Nil
  then show ?case by (simp add: derived_columns_Nil categorical_warnings_def)
next
  case (Cons e cm)
  obtain r p where e: "e = (r, p)" by (cases e)
  show ?case
    unfolding e
    by (cases "map_of input_dict r")
       (auto simp: Cons.IH derived_columns_Cons categorical_warnings_def fun_eq_iff Let_def)
qed

lemma init_feature_values_apply:
  "init_feature_values ef c = (if c \<in> set ef then Some (IntV 0) else None)"
  by (induction ef) (auto simp: init_feature_values_def)

lemma cell_DataFrame:
  "cell (DataFrame fv cols) c = (if c \<in> set cols then fv c else None)"
proof -
  have "map_of (zip cols (map fv cols)) c = (if c \<in> set cols then Some (fv c) else None)"
    by (induction cols) auto
  then show ?thesis by (simp add: cell_def DataFrame_def)
qed

lemma prepare_input_data_closed:
  assumes "ef \<noteq> []"
  shows "prepare_input_data input_dict ef (Some cm) =
           Inr (DataFrame (final_values input_dict ef cm) ef, builder_output input_dict ef cm)"
proof -
  define num where "num = filter (\<lambda>f. f \<notin> set (keys cm)) (keys input_dict)"
  define st where "st = (\<lambda>c. if c \<in> set num \<and> c \<in> set ef then map_of input_dict c
                              else init_feature_values ef c,
                         map numerical_warning (filter (\<lambda>f. f \<notin> set ef) num))"
  have sub: "set num \<subseteq> set (keys input_dict)" by (auto simp: num_def)
  have loop1: "numerical_loop input_dict ef num (init_feature_values ef, []) = Inr st"
    using numerical_loop_closed [OF sub] by (simp add: st_def)
  have loop2: "(if cm = [] then st else categorical_loop input_dict ef cm st) =
                 (final_values input_dict ef cm, builder_output input_dict ef cm)"
  proof (cases "cm = []")
    case True
    then show ?thesis
      by (auto simp: st_def num_def final_values_def derived_columns_Nil categorical_warnings_def
            builder_output_def init_feature_values_apply fun_eq_iff)
  next
    case False
    then show ?thesis
      by (auto simp: st_def num_def final_values_def categorical_loop_closed builder_output_def
            init_feature_values_apply fun_eq_iff)
  qed
  have "prepare_input_data input_dict ef (Some cm) =
          (let (feature_values, out) =
                 (if cm = [] then st else categorical_loop input_dict ef cm st)
           in Inr (DataFrame feature_values ef, out))"
    using assms loop1 by (simp add: prepare_input_data_def numerical_features_def num_def)
  then show ?thesis
    unfolding loop2 by simp
qed

lemma final_values_defined:
  "c \<in> set ef \<Longrightarrow> final_values input_dict ef cm c \<noteq> None"
  using map_of_keys [of c input_dict] by (auto simp: final_values_def)

lemma final_values_hot:
  "(r, p) \<in> set cm \<Longrightarrow> map_of input_dict r = Some v \<Longrightarrow> p @ ''_'' @ py_str v \<in> set ef \<Longrightarrow>
   final_values input_dict ef cm (p @ ''_'' @ py_str v) = Some (IntV 1)"
  by (auto simp: final_values_def in_derived_columns)

lemma final_values_zero:
  assumes "c \<in> set ef"
    and "\<not> (c \<in> set (keys input_dict) \<and> c \<notin> set (keys cm))"
    and "\<forall>(r, p) \<in> set cm. \<forall>v. map_of input_dict r = Some v \<longrightarrow> c \<noteq> p @ ''_'' @ py_str v"
  shows "final_values input_dict ef cm c = Some (IntV 0)"
  using assms by (auto simp: final_values_def in_derived_columns)

lemma map_of_without: "map_of (without k d) x = (if x = k then None else map_of d x)"
  by (induction d) (auto simp: without_def)

lemma keys_without: "set (keys (without k d)) = set (keys d) - {k}"
  by (auto simp: without_def keys_def)

lemma final_values_without_numerical:
  assumes "a \<notin> set (keys cm)" and "a \<notin> set ef"
  shows "final_values (without a input_dict) ef cm = final_values input_dict ef cm"
proof -
  have "map_of (without a input_dict) r = map_of input_dict r" if "(r, p) \<in> set cm" for r p
    using assms(1) that by (force simp: map_of_without keys_def)
  then have "set (derived_columns (without a input_dict) cm) = set (derived_columns input_dict cm)"
    by (auto simp: in_derived_columns) metis+
  with assms(2) show ?thesis
    by (auto simp: final_values_def fun_eq_iff keys_without map_of_without)
qed

lemma final_values_without_categorical:
  assumes "distinct (keys cm)" and "(raw, pre) \<in> set cm" and "map_of input_dict raw = Some v"
    and "pre @ ''_'' @ py_str v \<notin> set ef"
  shows "final_values (without raw input_dict) ef cm = final_values input_dict ef cm"
proof -
  have same: "p = pre" if "(raw, p) \<in> set cm" for p
    using assms(1,2) that unfolding keys_def by (metis eq_key_imp_eq_value)
  have "c \<in> set (derived_columns (without raw input_dict) cm) \<longleftrightarrow>
          c \<in> set (derived_columns input_dict cm)"
    if "c \<in> set ef" for c
  proof
    assume "c \<in> set (derived_columns (without raw input_dict) cm)"
    then show "c \<in> set (derived_columns input_dict cm)"
      by (auto simp: in_derived_columns map_of_without split: if_splits)
  next
    assume "c \<in> set (derived_columns input_dict cm)"
    then obtain r p v' where rp: "(r, p) \<in> set cm" "map_of input_dict r = Some v'"
      "c = p @ ''_'' @ py_str v'"
      by (auto simp: in_derived_columns)
    have "r \<noteq> raw"
    proof
      assume "r = raw"
      with rp same assms(3) have "c = pre @ ''_'' @ py_str v" by auto
      with assms(4) that show False by simp
    qed
    with rp show "c \<in> set (derived_columns (without raw input_dict) cm)"
      by (auto simp: in_derived_columns map_of_without)
  qed
  moreover have "raw \<in> set (keys cm)"
    using assms(2) by (force simp: keys_def)
  ultimately show ?thesis
    by (auto simp: final_values_def fun_eq_iff keys_without map_of_without)
qed


section \<open>Properties of the builder\<close>

text \<open>
  Claim C1. For a non-empty expected feature list, any input record and any categorical
  mapping, \<^verbatim>\<open>prepare_input_data\<close> returns a frame of one row whose columns are the expected
  feature list itself, in its order (repeated names included), with one cell per column,
  each holding a value. Nothing is asked of the record. (The mapping is a mapping here;
  the call that leaves it at \<^verbatim>\<open>None\<close> is claim C9.)
\<close>

theorem builder_columns_exact:
  assumes "expected_features \<noteq> []"
  shows "\<exists>row out.
           prepare_input_data input_dict expected_features (Some categorical_mapping) =
             Inr (\<lparr>columns = expected_features, rows = [row]\<rparr>, out)
           \<and> length row = length expected_features \<and> None \<notin> set row"
proof -
  let ?row = "map (final_values input_dict expected_features categorical_mapping) expected_features"
  have "None \<notin> set ?row"
  proof
    assume "None \<in> set ?row"
    then obtain c where "c \<in> set expected_features"
      "final_values input_dict expected_features categorical_mapping c = None"
      by auto
    then show False
      using final_values_defined by blast
  qed
  then show ?thesis
    using prepare_input_data_closed [OF assms, of input_dict categorical_mapping]
    by (simp add: DataFrame_def)
qed

text \<open>
  The example record, the mapping of the notebook and the expected features of the
  recorded run.
\<close>

theorem builder_columns_exact_witness:
  "reference_features \<noteq> [] \<and>
   (\<exists>row out.
      prepare_input_data transaction_data reference_features (Some CATEGORICAL_MAPPING) =
        Inr (\<lparr>columns = reference_features, rows = [row]\<rparr>, out)
      \<and> length row = length reference_features \<and> None \<notin> set row)"
proof -
  have "reference_features \<noteq> []"
    by (simp add: reference_features_def)
  from this builder_columns_exact [OF this, of transaction_data CATEGORICAL_MAPPING]
  show ?thesis by simp
qed

text \<open>
  Claim C3 as stated fails. The record below has the categorical attribute
  \<^verbatim>\<open>Transaction_Type\<close> with value \<^verbatim>\<open>Online\<close> and an attribute named \<^verbatim>\<open>Transaction_Type_POS\<close>,
  which is not a key of the mapping and so is copied as a number: the column
  \<^verbatim>\<open>Transaction_Type_Online\<close> is 1, and the other column with that prefix is 7, not 0.
\<close>

theorem one_hot_counterexample:
  "prepare_input_data
     [(''Transaction_Type'', StrV ''Online''), (''Transaction_Type_POS'', IntV 7)]
     [''Transaction_Type_Online'', ''Transaction_Type_POS'']
     (Some [(''Transaction_Type'', ''Transaction_Type'')]) =
   Inr (\<lparr>columns = [''Transaction_Type_Online'', ''Transaction_Type_POS''],
         rows = [[Some (IntV 1), Some (IntV 7)]]\<rparr>, [])"
  by code_simp

text \<open>
  Claim C3, amended. If the record has the categorical attribute \<open>raw\<close> with value \<open>v\<close>,
  the mapping sends \<open>raw\<close> to \<open>pre\<close>, and the column \<open>pre_v\<close> is expected, then the builder
  returns a frame whose column \<open>pre_v\<close> is 1, and every other expected column with the
  prefix \<open>pre_\<close> is 0, unless it is the name of an attribute of the record outside the
  mapping (whose value is copied into it) or the one-hot column of a mapping entry present
  in the record (which is set to 1).
\<close>

theorem one_hot_slot_set:
  assumes "(raw, pre) \<in> set cm" and "map_of input_dict raw = Some v"
    and "pre @ ''_'' @ py_str v \<in> set ef"
  shows "\<exists>df out.
           prepare_input_data input_dict ef (Some cm) = Inr (df, out)
           \<and> cell df (pre @ ''_'' @ py_str v) = Some (IntV 1)
           \<and> (\<forall>c \<in> set ef.
                 prefix (pre @ ''_'') c \<and> c \<noteq> pre @ ''_'' @ py_str v
                 \<and> \<not> (c \<in> set (keys input_dict) \<and> c \<notin> set (keys cm))
                 \<and> (\<forall>(r', p') \<in> set cm. \<forall>v'.
                        map_of input_dict r' = Some v' \<longrightarrow> c \<noteq> p' @ ''_'' @ py_str v')
                 \<longrightarrow> cell df c = Some (IntV 0))"
proof -
  from assms(3) have ne: "ef \<noteq> []" by auto
  let ?df = "DataFrame (final_values input_dict ef cm) ef"
  have "cell ?df (pre @ ''_'' @ py_str v) = Some (IntV 1)"
    using assms(3) final_values_hot [OF assms] by (simp add: cell_DataFrame)
  moreover have "cell ?df c = Some (IntV 0)"
    if "c \<in> set ef" "\<not> (c \<in> set (keys input_dict) \<and> c \<notin> set (keys cm))"
      "\<forall>(r', p') \<in> set cm. \<forall>v'. map_of input_dict r' = Some v' \<longrightarrow> c \<noteq> p' @ ''_'' @ py_str v'"
    for c
    using that by (simp add: cell_DataFrame final_values_zero)
  ultimately show ?thesis
    using prepare_input_data_closed [OF ne, of input_dict cm] by blast
qed

text \<open>
  The scenario of the claim: the example record, the mapping
  \<^verbatim>\<open>{'Transaction_Type': 'Transaction_Type'}\<close> and the expected features of the recorded run.
  \<^verbatim>\<open>Transaction_Type_Online\<close> is 1 and the three other \<^verbatim>\<open>Transaction_Type_*\<close> columns are 0.
\<close>

theorem one_hot_slot_set_witness:
  "\<exists>df out.
     prepare_input_data transaction_data reference_features
       (Some [(''Transaction_Type'', ''Transaction_Type'')]) = Inr (df, out)
     \<and> cell df ''Transaction_Type_Online'' = Some (IntV 1)
     \<and> cell df ''Transaction_Type_ATM Withdrawal'' = Some (IntV 0)
     \<and> cell df ''Transaction_Type_Bank Transfer'' = Some (IntV 0)
     \<and> cell df ''Transaction_Type_POS'' = Some (IntV 0)"
proof -
  have 1: "(''Transaction_Type'', ''Transaction_Type'') \<in> set [(''Transaction_Type'', ''Transaction_Type'')]"
    by simp
  have 2: "map_of transaction_data ''Transaction_Type'' = Some (StrV ''Online'')"
    by (simp add: transaction_data_def)
  have 3: "''Transaction_Type'' @ ''_'' @ py_str (StrV ''Online'') \<in> set reference_features"
    by (simp add: reference_features_def)
  from one_hot_slot_set [OF 1 2 3] obtain df out where
    df: "prepare_input_data transaction_data reference_features
           (Some [(''Transaction_Type'', ''Transaction_Type'')]) = Inr (df, out)"
    and hot: "cell df (''Transaction_Type'' @ ''_'' @ py_str (StrV ''Online'')) = Some (IntV 1)"
    and zero: "\<And>c. c \<in> set reference_features \<Longrightarrow>
                 prefix (''Transaction_Type'' @ ''_'') c \<Longrightarrow>
                 c \<noteq> ''Transaction_Type'' @ ''_'' @ py_str (StrV ''Online'') \<Longrightarrow>
                 \<not> (c \<in> set (keys transaction_data)
                      \<and> c \<notin> set (keys [(''Transaction_Type'', ''Transaction_Type'')])) \<Longrightarrow>
                 (\<forall>(r', p') \<in> set [(''Transaction_Type'', ''Transaction_Type'')]. \<forall>v'.
                     map_of transaction_data r' = Some v' \<longrightarrow> c \<noteq> p' @ ''_'' @ py_str v') \<Longrightarrow>
                 cell df c = Some (IntV 0)"
    by blast
  have "cell df ''Transaction_Type_ATM Withdrawal'' = Some (IntV 0)"
    by (rule zero) (simp_all add: reference_features_def transaction_data_def keys_def)
  moreover have "cell df ''Transaction_Type_Bank Transfer'' = Some (IntV 0)"
    by (rule zero) (simp_all add: reference_features_def transaction_data_def keys_def)
  moreover have "cell df ''Transaction_Type_POS'' = Some (IntV 0)"
    by (rule zero) (simp_all add: reference_features_def transaction_data_def keys_def)
  ultimately show ?thesis
    using df hot by simp
qed

text \<open>
  Claim C4. Let the categorical attribute \<open>raw\<close> be in the record with value \<open>v\<close> and in
  the mapping with prefix \<open>pre\<close>, and let the column \<open>pre_v\<close> not be expected. Then the
  builder returns a frame, having printed the line
  \<^verbatim>\<open>Warning: Category 'v' not found in model for feature 'raw'\<close>; the frame has no
  column \<open>pre_v\<close>, so the column is not set; the frame is the one the builder returns for
  the record without the attribute, so no slot is touched on its account; and every slot
  that no other attribute of the record fills is 0, the one-hot slots of \<open>pre\<close> among them.
  The mapping is a dictionary: its keys are distinct.
\<close>

theorem unknown_category_ignored:
  assumes "ef \<noteq> []" and "distinct (keys cm)" and "(raw, pre) \<in> set cm"
    and "map_of input_dict raw = Some v" and "pre @ ''_'' @ py_str v \<notin> set ef"
  shows "\<exists>df out.
           prepare_input_data input_dict ef (Some cm) = Inr (df, out)
           \<and> ''Warning: Category '' @ [CHR 0x27] @ py_str v @ [CHR 0x27]
                @ '' not found in model for feature '' @ [CHR 0x27] @ raw @ [CHR 0x27] \<in> set out
           \<and> pre @ ''_'' @ py_str v \<notin> set (columns df)
           \<and> (\<exists>out'. prepare_input_data (without raw input_dict) ef (Some cm) = Inr (df, out'))
           \<and> (\<forall>c \<in> set ef.
                 \<not> (c \<in> set (keys input_dict) \<and> c \<notin> set (keys cm))
                 \<and> (\<forall>(r', p') \<in> set cm. \<forall>v'.
                        r' \<noteq> raw \<and> map_of input_dict r' = Some v' \<longrightarrow> c \<noteq> p' @ ''_'' @ py_str v')
                 \<longrightarrow> cell df c = Some (IntV 0))"
proof -
  let ?df = "DataFrame (final_values input_dict ef cm) ef"
  let ?line = "''Warning: Category '' @ [CHR 0x27] @ py_str v @ [CHR 0x27]
                 @ '' not found in model for feature '' @ [CHR 0x27] @ raw @ [CHR 0x27]"
  have same: "p = pre" if "(raw, p) \<in> set cm" for p
    using assms(2,3) that unfolding keys_def by (metis eq_key_imp_eq_value)
  have run: "prepare_input_data input_dict ef (Some cm) = Inr (?df, builder_output input_dict ef cm)"
    by (rule prepare_input_data_closed [OF assms(1)])
  have line: "categorical_warning v raw = ?line"
    by (simp add: categorical_warning_def squote_def)
  have "categorical_warning v raw \<in> set (categorical_warnings input_dict ef cm)"
    unfolding categorical_warnings_def using assms(3,4,5) by (force simp: image_iff)
  then have "categorical_warning v raw \<in> set (builder_output input_dict ef cm)"
    by (simp add: builder_output_def)
  then have warn: "?line \<in> set (builder_output input_dict ef cm)"
    unfolding line .
  have col: "pre @ ''_'' @ py_str v \<notin> set (columns ?df)"
    using assms(5) by (simp add: DataFrame_def)
  have del: "prepare_input_data (without raw input_dict) ef (Some cm) =
               Inr (?df, builder_output (without raw input_dict) ef cm)"
    using prepare_input_data_closed [OF assms(1), of "without raw input_dict" cm]
    by (simp add: final_values_without_categorical [OF assms(2,3,4,5)])
  have zero: "cell ?df c = Some (IntV 0)"
    if c: "c \<in> set ef" and num: "\<not> (c \<in> set (keys input_dict) \<and> c \<notin> set (keys cm))"
      and other: "\<forall>(r', p') \<in> set cm. \<forall>v'.
                    r' \<noteq> raw \<and> map_of input_dict r' = Some v' \<longrightarrow> c \<noteq> p' @ ''_'' @ py_str v'"
    for c
  proof -
    have "\<forall>(r', p') \<in> set cm. \<forall>v'. map_of input_dict r' = Some v' \<longrightarrow> c \<noteq> p' @ ''_'' @ py_str v'"
    proof (clarify)
      fix r' p' v'
      assume rp: "(r', p') \<in> set cm" and v': "map_of input_dict r' = Some v'"
        and eq: "c = p' @ ''_'' @ py_str v'"
      show False
      proof (cases "r' = raw")
        case True
        with rp same v' assms(4) have "c = pre @ ''_'' @ py_str v" using eq by auto
        with assms(5) c show False by simp
      next
        case False
        with other rp v' eq show False by blast
      qed
    qed
    with c num show ?thesis
      by (simp add: cell_DataFrame final_values_zero)
  qed
  from run warn col del zero show ?thesis by blast
qed

text \<open>
  An instance: the category \<^verbatim>\<open>Crypto\<close> is unknown to the expected features. The line
  printed is \<^verbatim>\<open>Warning: Category 'Crypto' not found in model for feature 'Transaction_Type'\<close>,
  both \<^verbatim>\<open>Transaction_Type_*\<close> slots stay 0 and the frame is that of the record without the
  attribute.
\<close>

theorem unknown_category_ignored_witness:
  "\<exists>df out.
     prepare_input_data
       [(''Transaction_Amount'', IntV 1500), (''Transaction_Type'', StrV ''Crypto'')]
       [''Transaction_Amount'', ''Transaction_Type_Online'', ''Transaction_Type_POS'']
       (Some [(''Transaction_Type'', ''Transaction_Type'')]) = Inr (df, out)
     \<and> ''Warning: Category 'Crypto' not found in model for feature 'Transaction_Type''
          @ [CHR 0x27] \<in> set out
     \<and> ''Transaction_Type_Crypto'' \<notin> set (columns df)
     \<and> (\<exists>out'. prepare_input_data [(''Transaction_Amount'', IntV 1500)]
                  [''Transaction_Amount'', ''Transaction_Type_Online'', ''Transaction_Type_POS'']
                  (Some [(''Transaction_Type'', ''Transaction_Type'')]) = Inr (df, out'))
     \<and> cell df ''Transaction_Type_Online'' = Some (IntV 0)
     \<and> cell df ''Transaction_Type_POS'' = Some (IntV 0)"
proof -
  let ?inp = "[(''Transaction_Amount'', IntV 1500), (''Transaction_Type'', StrV ''Crypto'')]"
  let ?ef = "[''Transaction_Amount'', ''Transaction_Type_Online'', ''Transaction_Type_POS'']"
  let ?cm = "[(''Transaction_Type'', ''Transaction_Type'')]"
  have 1: "?ef \<noteq> []" by simp
  have 2: "distinct (keys ?cm)" by (simp add: keys_def)
  have 3: "(''Transaction_Type'', ''Transaction_Type'') \<in> set ?cm" by simp
  have 4: "map_of ?inp ''Transaction_Type'' = Some (StrV ''Crypto'')" by simp
  have 5: "''Transaction_Type'' @ ''_'' @ py_str (StrV ''Crypto'') \<notin> set ?ef" by simp
  from unknown_category_ignored [OF 1 2 3 4 5] obtain df out where
    run: "prepare_input_data ?inp ?ef (Some ?cm) = Inr (df, out)"
    and warn: "''Warning: Category '' @ [CHR 0x27] @ py_str (StrV ''Crypto'') @ [CHR 0x27]
                 @ '' not found in model for feature '' @ [CHR 0x27] @ ''Transaction_Type''
                 @ [CHR 0x27] \<in> set out"
    and col: "''Transaction_Type'' @ ''_'' @ py_str (StrV ''Crypto'') \<notin> set (columns df)"
    and del: "\<exists>out'. prepare_input_data (without ''Transaction_Type'' ?inp) ?ef (Some ?cm) =
                Inr (df, out')"
    and zero: "\<And>c. c \<in> set ?ef \<Longrightarrow>
                 \<not> (c \<in> set (keys ?inp) \<and> c \<notin> set (keys ?cm)) \<Longrightarrow>
                 (\<forall>(r', p') \<in> set ?cm. \<forall>v'.
                     r' \<noteq> ''Transaction_Type'' \<and> map_of ?inp r' = Some v' \<longrightarrow>
                     c \<noteq> p' @ ''_'' @ py_str v') \<Longrightarrow>
                 cell df c = Some (IntV 0)"
    by blast
  have "cell df ''Transaction_Type_Online'' = Some (IntV 0)"
    by (rule zero) (simp_all add: keys_def)
  moreover have "cell df ''Transaction_Type_POS'' = Some (IntV 0)"
    by (rule zero) (simp_all add: keys_def)
  ultimately show ?thesis
    using run warn col del
    by (simp add: without_def)
qed

text \<open>
  Claim C5. With an empty expected feature list the builder raises
  \<^verbatim>\<open>ValueError("No expected features provided")\<close>, whatever the record and whatever the
  mapping, \<^verbatim>\<open>None\<close> included.
\<close>

theorem empty_features_rejected:
  "prepare_input_data input_dict [] categorical_mapping =
     Inl (Exn ValueError ''No expected features provided'')"
  by (simp add: prepare_input_data_def)

text \<open>
  Claim C6. An attribute \<open>a\<close> of the record whose name is neither a key of the mapping
  nor an expected feature does not make the builder raise: the builder returns a frame,
  having printed the line \<^verbatim>\<open>Warning: Numerical feature 'a' not used in model\<close>; the frame
  has no column of that name and is the one the builder returns for the record without
  the attribute.
\<close>

theorem unknown_attribute_ignored:
  assumes "ef \<noteq> []" and "a \<in> set (keys input_dict)" and "a \<notin> set (keys cm)" and "a \<notin> set ef"
  shows "\<exists>df out.
           prepare_input_data input_dict ef (Some cm) = Inr (df, out)
           \<and> ''Warning: Numerical feature '' @ [CHR 0x27] @ a @ [CHR 0x27]
                @ '' not used in model'' \<in> set out
           \<and> a \<notin> set (columns df)
           \<and> (\<exists>out'. prepare_input_data (without a input_dict) ef (Some cm) = Inr (df, out'))"
proof -
  let ?df = "DataFrame (final_values input_dict ef cm) ef"
  let ?line = "''Warning: Numerical feature '' @ [CHR 0x27] @ a @ [CHR 0x27] @ '' not used in model''"
  have run: "prepare_input_data input_dict ef (Some cm) = Inr (?df, builder_output input_dict ef cm)"
    by (rule prepare_input_data_closed [OF assms(1)])
  have line: "numerical_warning a = ?line"
    by (simp add: numerical_warning_def squote_def)
  have "numerical_warning a \<in> set (builder_output input_dict ef cm)"
    using assms(2,3,4) by (simp add: builder_output_def)
  then have warn: "?line \<in> set (builder_output input_dict ef cm)"
    unfolding line .
  have col: "a \<notin> set (columns ?df)"
    using assms(4) by (simp add: DataFrame_def)
  have del: "prepare_input_data (without a input_dict) ef (Some cm) =
               Inr (?df, builder_output (without a input_dict) ef cm)"
    using prepare_input_data_closed [OF assms(1), of "without a input_dict" cm]
    by (simp add: final_values_without_numerical [OF assms(3,4)])
  from run warn col del show ?thesis by blast
qed

text \<open>
  An instance: \<^verbatim>\<open>Customer_Name\<close> is unknown to the mapping of the notebook and to the
  expected features; the line printed is
  \<^verbatim>\<open>Warning: Numerical feature 'Customer_Name' not used in model\<close>.
\<close>

theorem unknown_attribute_ignored_witness:
  "\<exists>df out.
     prepare_input_data [(''Transaction_Amount'', IntV 1500), (''Customer_Name'', StrV ''Bob'')]
       [''Transaction_Amount''] (Some CATEGORICAL_MAPPING) = Inr (df, out)
     \<and> ''Warning: Numerical feature 'Customer_Name' not used in model'' \<in> set out
     \<and> ''Customer_Name'' \<notin> set (columns df)
     \<and> (\<exists>out'. prepare_input_data [(''Transaction_Amount'', IntV 1500)]
                  [''Transaction_Amount''] (Some CATEGORICAL_MAPPING) = Inr (df, out'))"
proof -
  let ?inp = "[(''Transaction_Amount'', IntV 1500), (''Customer_Name'', StrV ''Bob'')]"
  have 1: "[''Transaction_Amount''] \<noteq> []" by simp
  have 2: "''Customer_Name'' \<in> set (keys ?inp)" by (simp add: keys_def)
  have 3: "''Customer_Name'' \<notin> set (keys CATEGORICAL_MAPPING)"
    by (simp add: keys_def CATEGORICAL_MAPPING_def)
  have 4: "''Customer_Name'' \<notin> set [''Transaction_Amount'']" by simp
  from unknown_attribute_ignored [OF 1 2 3 4] show ?thesis
    by (simp add: without_def)
qed

text \<open>
  Claim C9. With the mapping left at its default \<^verbatim>\<open>None\<close>, a non-empty record and a
  non-empty expected feature list, the builder raises the \<^verbatim>\<open>TypeError\<close> of the membership
  test \<^verbatim>\<open>f not in None\<close>; it does not treat the attributes as numerical.
\<close>

theorem none_mapping_raises:
  assumes "input_dict \<noteq> []" and "expected_features \<noteq> []"
  shows "prepare_input_data input_dict expected_features None =
           Inl (Exn TypeError ''argument of type 'NoneType' is not iterable'')"
  using assms by (simp add: prepare_input_data_def numerical_features_def)

text \<open>
  The example record and the expected features of the recorded run are such a call.
\<close>

theorem none_mapping_raises_witness:
  "transaction_data \<noteq> [] \<and> reference_features \<noteq> [] \<and>
   prepare_input_data transaction_data reference_features None =
     Inl (Exn TypeError ''argument of type 'NoneType' is not iterable'')"
proof -
  have 1: "transaction_data \<noteq> []" by (simp add: transaction_data_def)
  have 2: "reference_features \<noteq> []" by (simp add: reference_features_def)
  from none_mapping_raises [OF 1 2] 1 2 show ?thesis by simp
qed

section \<open>Properties of the loader and of the predictor\<close>

text \<open>
  Claim C7. What \<^verbatim>\<open>load_model_with_metadata\<close> returns, by what \<^verbatim>\<open>joblib.load\<close> returns.
  For a \<^verbatim>\<open>dict\<close> with a key \<^verbatim>\<open>model\<close>: the model under that key and the three metadata
  entries, each the empty list where its key is absent. For any other object, a \<^verbatim>\<open>dict\<close>
  without the key \<^verbatim>\<open>model\<close> included: the object itself as the model, with three empty
  lists. When \<^verbatim>\<open>joblib.load\<close> raises: a \<^verbatim>\<open>ValueError\<close> whose message is
  \<^verbatim>\<open>Error loading model: \<close> followed by the text of the cause.
\<close>

theorem load_model_with_metadata_cases:
  "(load path = Inr (PyDict d) \<and> map_of d ''model'' = Some model \<longrightarrow>
      load_model_with_metadata load path =
        Inr (model,
             (case map_of d ''feature_names'' of None \<Rightarrow> PyList [] | Some names \<Rightarrow> names),
             (case map_of d ''categorical_features'' of None \<Rightarrow> PyList [] | Some names \<Rightarrow> names),
             (case map_of d ''training_columns'' of None \<Rightarrow> PyList [] | Some names \<Rightarrow> names)))
   \<and> (load path = Inr obj \<and> (\<forall>d'. obj = PyDict d' \<longrightarrow> map_of d' ''model'' = None) \<longrightarrow>
        load_model_with_metadata load path = Inr (obj, PyList [], PyList [], PyList []))
   \<and> (load path = Inl e \<longrightarrow>
        load_model_with_metadata load path =
          Inl (Exn ValueError (''Error loading model: '' @ message e)))"
  by (cases obj) (auto simp: load_model_with_metadata_def dict_get_def)

text \<open>
  The three cases: an artifact with a model and feature names only, a bare model, and a
  path at which there is no file.
\<close>

theorem load_model_with_metadata_cases_witness:
  "load_model_with_metadata
     (joblib_load (file_environment
        (PyDict [(''model'', PyModel (constant_model [Some (IntV 1)] [[1 / 4, 3 / 4]])),
                 (''feature_names'', PyList reference_features)])))
     MODEL_PATH =
     Inr (PyModel (constant_model [Some (IntV 1)] [[1 / 4, 3 / 4]]),
          PyList reference_features, PyList [], PyList [])
   \<and> load_model_with_metadata
       (joblib_load (file_environment (PyModel (constant_model [Some (IntV 1)] [[1 / 4, 3 / 4]]))))
       MODEL_PATH =
       Inr (PyModel (constant_model [Some (IntV 1)] [[1 / 4, 3 / 4]]), PyList [], PyList [], PyList [])
   \<and> load_model_with_metadata (joblib_load (file_environment PyNone)) ''model.pkl'' =
       Inl (Exn ValueError (''Error loading model: [Errno 2] No such file or directory: '' @ squote ''model.pkl''))"
proof -
  let ?m = "PyModel (constant_model [Some (IntV 1)] [[1 / 4, 3 / 4]])"
  let ?d = "[(''model'', ?m), (''feature_names'', PyList reference_features)]"
  have 1: "joblib_load (file_environment (PyDict ?d)) MODEL_PATH = Inr (PyDict ?d)
             \<and> map_of ?d ''model'' = Some ?m"
    by (simp add: file_environment_def)
  have 2: "joblib_load (file_environment ?m) MODEL_PATH = Inr ?m
             \<and> (\<forall>d'. ?m = PyDict d' \<longrightarrow> map_of d' ''model'' = None)"
    by (simp add: file_environment_def)
  have 3: "joblib_load (file_environment PyNone) ''model.pkl'' =
             Inl (Exn FileNotFoundError (''[Errno 2] No such file or directory: '' @ squote ''model.pkl''))"
    by (simp add: file_environment_def MODEL_PATH_def)
  from 1 load_model_with_metadata_cases
         [of "joblib_load (file_environment (PyDict ?d))" MODEL_PATH ?d ?m]
  have a: "load_model_with_metadata (joblib_load (file_environment (PyDict ?d))) MODEL_PATH =
             Inr (?m, PyList reference_features, PyList [], PyList [])"
    by simp
  from 2 load_model_with_metadata_cases [of "joblib_load (file_environment ?m)" MODEL_PATH _ _ ?m]
  have b: "load_model_with_metadata (joblib_load (file_environment ?m)) MODEL_PATH =
             Inr (?m, PyList [], PyList [], PyList [])"
    by blast
  from 3 load_model_with_metadata_cases
         [of "joblib_load (file_environment PyNone)" "''model.pkl''" _ _ _
             "Exn FileNotFoundError (''[Errno 2] No such file or directory: '' @ squote ''model.pkl'')"]
  have c: "load_model_with_metadata (joblib_load (file_environment PyNone)) ''model.pkl'' =
             Inl (Exn ValueError (''Error loading model: [Errno 2] No such file or directory: '' @ squote ''model.pkl''))"
    by simp
  from a b c show ?thesis by blast
qed

text \<open>
  Claim C2. When \<^verbatim>\<open>model.predict\<close> raises, or \<^verbatim>\<open>model.predict_proba\<close> does after
  \<^verbatim>\<open>predict\<close> has answered, \<^verbatim>\<open>predict_fraud\<close> raises a \<^verbatim>\<open>ValueError\<close> whose message is
  \<^verbatim>\<open>Prediction error: \<close> followed by the text of the cause. In particular, let the model
  have been trained on columns among which is a raw key of the categorical mapping that
  is not itself an expected feature. The frame the builder makes has the expected
  features as its columns, so the model finds that key missing, and \<^verbatim>\<open>predict_fraud\<close>
  fails with \<^verbatim>\<open>Prediction error: columns are missing: \<close> and the set of the training
  columns that are not expected features, that key among them.
\<close>

theorem predict_fraud_wraps_failure:
  "(predict m X = Inl e \<longrightarrow>
      predict_fraud (PyModel m) X = Inl (Exn ValueError (''Prediction error: '' @ message e)))
   \<and> (predict m X = Inr labels \<and> predict_proba m X = Inl e \<longrightarrow>
        predict_fraud (PyModel m) X = Inl (Exn ValueError (''Prediction error: '' @ message e)))
   \<and> (ef \<noteq> [] \<and> raw \<in> set (keys cm) \<and> raw \<in> set training_columns \<and> raw \<notin> set ef \<longrightarrow>
        (\<exists>df out missing.
           prepare_input_data input_dict ef (Some cm) = Inr (df, out)
           \<and> missing = filter (\<lambda>c. c \<notin> set ef) training_columns
           \<and> raw \<in> set missing
           \<and> predict_fraud (PyModel (column_checking training_columns fitted)) df =
               Inl (Exn ValueError
                      (''Prediction error: columns are missing: '' @ set_repr missing))))"
proof (intro conjI impI)
  assume "predict m X = Inl e"
  then show "predict_fraud (PyModel m) X = Inl (Exn ValueError (''Prediction error: '' @ message e))"
    by (simp add: predict_fraud_def predict_fraud_try_def)
next
  assume "predict m X = Inr labels \<and> predict_proba m X = Inl e"
  then show "predict_fraud (PyModel m) X = Inl (Exn ValueError (''Prediction error: '' @ message e))"
    by (simp add: predict_fraud_def predict_fraud_try_def)
next
  assume a: "ef \<noteq> [] \<and> raw \<in> set (keys cm) \<and> raw \<in> set training_columns \<and> raw \<notin> set ef"
  let ?df = "DataFrame (final_values input_dict ef cm) ef"
  let ?missing = "filter (\<lambda>c. c \<notin> set ef) training_columns"
  have run: "prepare_input_data input_dict ef (Some cm) = Inr (?df, builder_output input_dict ef cm)"
    using a by (simp add: prepare_input_data_closed)
  have mc: "missing_columns training_columns ?df = ?missing"
    by (simp add: missing_columns_def DataFrame_def)
  have raw: "raw \<in> set ?missing" using a by simp
  then have ne: "?missing \<noteq> []" by (metis empty_iff list.set(1))
  have "predict (column_checking training_columns fitted) ?df =
          Inl (Exn ValueError (''columns are missing: '' @ set_repr ?missing))"
    using ne by (simp add: column_checking_def check_columns_def mc)
  then have "predict_fraud (PyModel (column_checking training_columns fitted)) ?df =
          Inl (Exn ValueError (''Prediction error: columns are missing: '' @ set_repr ?missing))"
    by (simp add: predict_fraud_def predict_fraud_try_def)
  with run raw show "\<exists>df out missing.
           prepare_input_data input_dict ef (Some cm) = Inr (df, out)
           \<and> missing = filter (\<lambda>c. c \<notin> set ef) training_columns
           \<and> raw \<in> set missing
           \<and> predict_fraud (PyModel (column_checking training_columns fitted)) df =
               Inl (Exn ValueError
                      (''Prediction error: columns are missing: '' @ set_repr missing))"
    by blast
qed

text \<open>
  A model whose \<^verbatim>\<open>predict\<close> raises, one whose \<^verbatim>\<open>predict_proba\<close> raises, and the recorded
  run: the example record, the expected features that run printed, the mapping of the
  notebook and a model trained on the raw columns of the record. The message is the one
  in the notebook's output cell, up to the order of the names in the set.
\<close>

theorem predict_fraud_wraps_failure_witness:
  "predict_fraud
     (PyModel ((constant_model [Some (IntV 1)] [[1 / 4, 3 / 4]])
                 \<lparr>predict := (\<lambda>X. Inl (Exn RuntimeError ''not fitted''))\<rparr>))
     (DataFrame Map.empty [''a'']) =
     Inl (Exn ValueError ''Prediction error: not fitted'')
   \<and> predict_fraud
       (PyModel ((constant_model [Some (IntV 1)] [[1 / 4, 3 / 4]])
                   \<lparr>predict_proba := (\<lambda>X. Inl (Exn AttributeError ''predict_proba''))\<rparr>))
       (DataFrame Map.empty [''a'']) =
       Inl (Exn ValueError ''Prediction error: predict_proba'')
   \<and> (\<exists>df out.
         prepare_input_data transaction_data reference_features (Some CATEGORICAL_MAPPING) =
           Inr (df, out)
         \<and> predict_fraud
             (PyModel (column_checking (keys transaction_data)
                         (constant_model [Some (IntV 1)] [[1 / 4, 3 / 4]]))) df =
             Inl (Exn ValueError
                    ''Prediction error: columns are missing: {'Transaction_Type', 'Device_Type', 'Location', 'Merchant_Category', 'Authentication_Method'}''))"
proof -
  let ?fitted = "constant_model [Some (IntV 1)] [[1 / 4, 3 / 4]]"
  let ?m1 = "?fitted\<lparr>predict := (\<lambda>X. Inl (Exn RuntimeError ''not fitted''))\<rparr>"
  let ?m2 = "?fitted\<lparr>predict_proba := (\<lambda>X. Inl (Exn AttributeError ''predict_proba''))\<rparr>"
  let ?X = "DataFrame Map.empty [''a'']"
  have 1: "predict ?m1 ?X = Inl (Exn RuntimeError ''not fitted'')"
    by simp
  have 2: "predict ?m2 ?X = Inr [Some (IntV 1)]
             \<and> predict_proba ?m2 ?X = Inl (Exn AttributeError ''predict_proba'')"
    by (simp add: constant_model_def)
  have 3: "reference_features \<noteq> [] \<and> ''Transaction_Type'' \<in> set (keys CATEGORICAL_MAPPING)
             \<and> ''Transaction_Type'' \<in> set (keys transaction_data)
             \<and> ''Transaction_Type'' \<notin> set reference_features"
    by (simp add: reference_features_def CATEGORICAL_MAPPING_def transaction_data_def keys_def)
  have 4: "filter (\<lambda>c. c \<notin> set reference_features) (keys transaction_data) =
             [''Transaction_Type'', ''Device_Type'', ''Location'', ''Merchant_Category'',
              ''Authentication_Method'']"
    by (simp add: reference_features_def transaction_data_def keys_def)
  have 5: "set_repr [''Transaction_Type'', ''Device_Type'', ''Location'', ''Merchant_Category'',
              ''Authentication_Method''] =
             ''{'Transaction_Type', 'Device_Type', 'Location', 'Merchant_Category', 'Authentication_Method'}''"
    by (simp add: set_repr_def comma_separated_def squote_def enumerate_eq_zip upt_rec)
  from 1 predict_fraud_wraps_failure [of ?m1 ?X "Exn RuntimeError ''not fitted''"]
  have a: "predict_fraud (PyModel ?m1) ?X = Inl (Exn ValueError ''Prediction error: not fitted'')"
    by simp
  from 2 predict_fraud_wraps_failure
           [of ?m2 ?X "Exn AttributeError ''predict_proba''" "[Some (IntV 1)]"]
  have b: "predict_fraud (PyModel ?m2) ?X = Inl (Exn ValueError ''Prediction error: predict_proba'')"
    by simp
  from 3 predict_fraud_wraps_failure
           [of _ _ _ _ reference_features "''Transaction_Type''" CATEGORICAL_MAPPING
               "keys transaction_data" transaction_data ?fitted]
  have c: "\<exists>df out.
         prepare_input_data transaction_data reference_features (Some CATEGORICAL_MAPPING) =
           Inr (df, out)
         \<and> predict_fraud (PyModel (column_checking (keys transaction_data) ?fitted)) df =
             Inl (Exn ValueError
                    ''Prediction error: columns are missing: {'Transaction_Type', 'Device_Type', 'Location', 'Merchant_Category', 'Authentication_Method'}'')"
    by (simp add: 4 5)
  from a b c show ?thesis by blast
qed

section \<open>Runs of the orchestration\<close>

lemma main_load_failure:
  assumes "joblib_load env MODEL_PATH = Inl e"
  shows "main env =
           \<lparr>stdout = [], stderr = [''Error: Error loading model: '' @ message e], exit_code = 1\<rparr>"
  using assms by (simp add: main_def main_try_def load_model_with_metadata_def)

lemma main_features_failure:
  assumes "load_model_with_metadata (joblib_load env) MODEL_PATH = Inr (model, names, cf, tc)"
    and "determine_features env model names = (printed, Inl e)"
  shows "main env =
           \<lparr>stdout = [''Model loaded successfully''] @ printed,
            stderr = [''Error: '' @ message e], exit_code = 1\<rparr>"
  using assms by (simp add: main_def main_try_def)

lemma determine_features_undeterminable:
  assumes "truth env names = Inr False" and "getattr_feature_names_in model = None"
  shows "\<exists>printed. determine_features env model names =
           (printed, Inl (Exn ValueError ''Could not determine required features for model''))"
  using assms by (cases "isinstance_Pipeline model") (simp_all add: determine_features_def Let_def)

lemma main_names_failure:
  assumes "load_model_with_metadata (joblib_load env) MODEL_PATH = Inr (model, names, cf, tc)"
    and "determine_features env model names = (printed, Inr names')"
    and "names_of names' = Inl e"
  shows "main env =
           \<lparr>stdout = [''Model loaded successfully''] @ printed
                       @ [''Expected features: '' @ show_features env names'],
            stderr = [''Error: '' @ message e], exit_code = 1\<rparr>"
  using assms by (simp add: main_def main_try_def)

lemma main_builder_failure:
  assumes "load_model_with_metadata (joblib_load env) MODEL_PATH = Inr (model, names, cf, tc)"
    and "determine_features env model names = (printed, Inr names')"
    and "names_of names' = Inr ef"
    and "prepare_input_data transaction_data ef (Some CATEGORICAL_MAPPING) = Inl e"
  shows "main env =
           \<lparr>stdout = [''Model loaded successfully''] @ printed
                       @ [''Expected features: '' @ show_features env names'],
            stderr = [''Error: '' @ message e], exit_code = 1\<rparr>"
  using assms by (simp add: main_def main_try_def)

lemma main_prediction_failure:
  assumes "load_model_with_metadata (joblib_load env) MODEL_PATH = Inr (model, names, cf, tc)"
    and "determine_features env model names = (printed, Inr names')"
    and "names_of names' = Inr ef"
    and "prepare_input_data transaction_data ef (Some CATEGORICAL_MAPPING) = Inr (X, printed')"
    and "predict_fraud model X = Inl e"
  shows "main env =
           \<lparr>stdout = [''Model loaded successfully''] @ printed
                       @ [''Expected features: '' @ show_features env names'] @ printed',
            stderr = [''Error: '' @ message e], exit_code = 1\<rparr>"
  using assms by (simp add: main_def main_try_def)

lemma main_success:
  assumes "load_model_with_metadata (joblib_load env) MODEL_PATH = Inr (model, names, cf, tc)"
    and "determine_features env model names = (printed, Inr names')"
    and "names_of names' = Inr ef"
    and "prepare_input_data transaction_data ef (Some CATEGORICAL_MAPPING) = Inr (X, printed')"
    and "predict_fraud model X = Inr (prediction, probability)"
  shows "main env =
           \<lparr>stdout = [''Model loaded successfully''] @ printed
                       @ [''Expected features: '' @ show_features env names'] @ printed'
                       @ report env prediction probability,
            stderr = [], exit_code = 0\<rparr>"
  using assms by (simp add: main_def main_try_def)

lemma main_dichotomy:
  "exit_code (main env) = 1 \<and> (\<exists>e. stderr (main env) = [''Error: '' @ message e])
   \<or> exit_code (main env) = 0 \<and> stderr (main env) = []"
proof (cases "main_try env")
  case (Pair out r)
  then show ?thesis
    by (cases r) (auto simp: main_def)
qed

lemma determined_names_true:
  assumes "determine_features env model names = (printed, Inr names')"
  shows "truth env names' = Inr True"
  using assms
  by (auto simp: determine_features_def Let_def split: sum.splits if_splits option.splits)

lemma determined_names_nonempty:
  assumes "determine_features env model names = (printed, Inr names')" and "names_of names' = Inr ef"
  shows "ef \<noteq> []"
proof -
  have t: "truth env names' = Inr True"
    using assms(1) by (rule determined_names_true)
  show ?thesis
  proof (cases names')
    case (PyArray xs)
    with t assms(2) show ?thesis
      by (cases xs) (auto split: option.splits)
  qed (use t assms(2) in \<open>auto simp: keys_def\<close>)
qed

lemma main_builder_total:
  assumes "determine_features env model names = (printed, Inr names')" and "names_of names' = Inr ef"
  shows "\<exists>X printed'.
           prepare_input_data transaction_data ef (Some CATEGORICAL_MAPPING) = Inr (X, printed')"
  using prepare_input_data_closed [OF determined_names_nonempty [OF assms]] by blast

lemma main_exit_zero_iff:
  "exit_code (main env) = 0 \<longleftrightarrow>
     (\<exists>model names cf tc printed names' ef X printed' prediction probability.
        load_model_with_metadata (joblib_load env) MODEL_PATH = Inr (model, names, cf, tc)
        \<and> determine_features env model names = (printed, Inr names')
        \<and> names_of names' = Inr ef
        \<and> prepare_input_data transaction_data ef (Some CATEGORICAL_MAPPING) = Inr (X, printed')
        \<and> predict_fraud model X = Inr (prediction, probability))"
  (is "?lhs \<longleftrightarrow> ?rhs")
proof
  assume ?rhs
  then show ?lhs
    using main_success by fastforce
next
  assume zero: ?lhs
  show ?rhs
  proof (cases "load_model_with_metadata (joblib_load env) MODEL_PATH")
    case (Inl e)
    with zero show ?thesis
      by (simp add: main_def main_try_def)
  next
    case (Inr loaded)
    then obtain model names cf tc where
      load: "load_model_with_metadata (joblib_load env) MODEL_PATH = Inr (model, names, cf, tc)"
      by (cases loaded) auto
    obtain printed r where det: "determine_features env model names = (printed, r)"
      by (cases "determine_features env model names")
    show ?thesis
    proof (cases r)
      case (Inl e)
      with zero main_features_failure [OF load] det show ?thesis by simp
    next
      case (Inr names')
      note det' = det [unfolded Inr]
      show ?thesis
      proof (cases "names_of names'")
        case (Inl e)
        with zero main_names_failure [OF load det'] show ?thesis by simp
      next
        case (Inr ef)
        note names = this
        show ?thesis
        proof (cases "prepare_input_data transaction_data ef (Some CATEGORICAL_MAPPING)")
          case (Inl e)
          with zero main_builder_failure [OF load det' names] show ?thesis by simp
        next
          case (Inr built)
          then obtain X printed' where
            prep: "prepare_input_data transaction_data ef (Some CATEGORICAL_MAPPING) = Inr (X, printed')"
            by (cases built) auto
          show ?thesis
          proof (cases "predict_fraud model X")
            case (Inl e)
            with zero main_prediction_failure [OF load det' names prep] show ?thesis by simp
          next
            case (Inr res)
            then obtain prediction probability where
              "predict_fraud model X = Inr (prediction, probability)"
              by (cases res) auto
            with load det' names prep show ?thesis by blast
          qed
        qed
      qed
    qed
  qed
qed



lemma reference_load:
  "load_model_with_metadata
     (joblib_load (file_environment
        (PyDict [(''model'', model), (''feature_names'', PyList reference_features)])))
     MODEL_PATH =
     Inr (model, PyList reference_features, PyList [], PyList [])"
  by (simp add: load_model_with_metadata_def file_environment_def dict_get_def)

lemma reference_names:
  "determine_features env model (PyList reference_features) =
     ([], Inr (PyList reference_features))"
  by (simp add: determine_features_def reference_features_def)

lemma reference_frame:
  "prepare_input_data transaction_data reference_features (Some CATEGORICAL_MAPPING) =
     Inr (DataFrame (final_values transaction_data reference_features CATEGORICAL_MAPPING)
            reference_features, [])"
proof -
  have ne: "reference_features \<noteq> []"
    by (simp add: reference_features_def)
  have quiet: "builder_output transaction_data reference_features CATEGORICAL_MAPPING = []"
    by (simp add: builder_output_def categorical_warnings_def transaction_data_def
          reference_features_def CATEGORICAL_MAPPING_def keys_def)
  show ?thesis
    using prepare_input_data_closed [OF ne, of transaction_data CATEGORICAL_MAPPING]
    by (simp add: quiet)
qed

lemma reference_missing:
  "missing_columns (keys transaction_data)
     (DataFrame (final_values transaction_data reference_features CATEGORICAL_MAPPING)
        reference_features) =
     [''Transaction_Type'', ''Device_Type'', ''Location'', ''Merchant_Category'',
      ''Authentication_Method'']"
  by (simp add: missing_columns_def DataFrame_def reference_features_def transaction_data_def
        keys_def)

lemma reference_set_repr:
  "set_repr [''Transaction_Type'', ''Device_Type'', ''Location'', ''Merchant_Category'',
             ''Authentication_Method''] =
     ''{'Transaction_Type', 'Device_Type', 'Location', 'Merchant_Category', 'Authentication_Method'}''"
  by (simp add: set_repr_def comma_separated_def squote_def enumerate_eq_zip upt_rec)

lemma predict_fraud_constant_model:
  "predict_fraud (PyModel (constant_model [label] [[q0, q1]])) X = Inr (label, q1)"
  by (simp add: predict_fraud_def predict_fraud_try_def constant_model_def)

lemma str_nat_digit: "n < 10 \<Longrightarrow> str_nat n = [digit_char n]"
  by (simp add: str_nat.simps)

lemma str_nat_more: "\<not> n < 10 \<Longrightarrow> str_nat n = str_nat (n div 10) @ [digit_char (n mod 10)]"
  by (subst str_nat.simps) simp

lemma floor_numeral_divide: "\<lfloor>(numeral a :: rat) / numeral b\<rfloor> = numeral a div numeral b"
  using floor_divide_of_int_eq [of "numeral a" "numeral b", where ?'a = rat] by simp

lemma recorded_missing:
  "missing_columns recorded_training_columns
     (DataFrame (final_values transaction_data reference_features CATEGORICAL_MAPPING)
        reference_features) =
     [''Device_Type'', ''Authentication_Method'', ''Merchant_Category'', ''Location'',
      ''Transaction_Type'']"
  by (simp add: missing_columns_def DataFrame_def reference_features_def
        recorded_training_columns_def)

lemma recorded_set_repr:
  "set_repr [''Device_Type'', ''Authentication_Method'', ''Merchant_Category'', ''Location'',
             ''Transaction_Type''] =
     ''{'Device_Type', 'Authentication_Method', 'Merchant_Category', 'Location', 'Transaction_Type'}''"
  by (simp add: set_repr_def comma_separated_def squote_def enumerate_eq_zip upt_rec)

section \<open>Properties of the orchestration\<close>

text \<open>
  Claim C8 as stated fails. \<^verbatim>\<open>main\<close> prints the results under \<^verbatim>\<open>if prediction is not None\<close>.
  With a model whose \<^verbatim>\<open>predict\<close> returns an array holding \<^verbatim>\<open>None\<close> nothing fails, the
  status is 0, and neither the prediction nor the probability nor a classification is
  printed.
\<close>

theorem main_silent_success_counterexample:
  "main (file_environment
           (PyDict [(''model'', PyModel (constant_model [None] [[1 / 2, 1 / 2]])),
                    (''feature_names'', PyList reference_features)])) =
     \<lparr>stdout = [''Model loaded successfully'',
                 ''Expected features: '' @ list_repr reference_features],
      stderr = [], exit_code = 0\<rparr>"
proof -
  have "predict_fraud (PyModel (constant_model [None] [[1 / 2, 1 / 2]]))
          (DataFrame (final_values transaction_data reference_features CATEGORICAL_MAPPING)
             reference_features) = Inr (None, 1 / 2)"
    by (rule predict_fraud_constant_model)
  from main_success [OF reference_load reference_names _ reference_frame this]
  show ?thesis
    by (simp add: report_def file_environment_def)
qed

text \<open>
  Claim C8, amended. Whatever raises in the body of \<^verbatim>\<open>main\<close> ends the run with the error
  on standard error, after \<^verbatim>\<open>Error: \<close>, and exit status 1: the load (a load error), the
  determination of the feature names (among its errors \<^verbatim>\<open>Could not determine required
  features for model\<close>, when the metadata has no names and the model records none), the
  iteration over the names, the builder, and the prediction (a prediction error). The
  builder, as it happens, cannot raise there, the names determined being never empty. A
  run in which all of these return ends with status 0 and nothing on standard error; its
  last lines on standard output are the prediction, the probability and the
  classification when the prediction is not \<^verbatim>\<open>None\<close>, and none of them is printed when it
  is \<^verbatim>\<open>None\<close>. Every run ends in one of the two ways, and the status is 0 exactly when
  every step returned.
\<close>

theorem main_exit_status:
  "(joblib_load env MODEL_PATH = Inl e \<longrightarrow>
      main env =
        \<lparr>stdout = [], stderr = [''Error: Error loading model: '' @ message e], exit_code = 1\<rparr>)
   \<and> (load_model_with_metadata (joblib_load env) MODEL_PATH = Inr (model, names, cf, tc) \<longrightarrow>
        (determine_features env model names = (printed, Inl e) \<longrightarrow>
           main env =
             \<lparr>stdout = [''Model loaded successfully''] @ printed,
              stderr = [''Error: '' @ message e], exit_code = 1\<rparr>)
        \<and> (truth env names = Inr False \<and> getattr_feature_names_in model = None \<longrightarrow>
             exit_code (main env) = 1
             \<and> stderr (main env) = [''Error: Could not determine required features for model''])
        \<and> (determine_features env model names = (printed, Inr names') \<longrightarrow>
             (names_of names' = Inl e \<longrightarrow>
                main env =
                  \<lparr>stdout = [''Model loaded successfully''] @ printed
                              @ [''Expected features: '' @ show_features env names'],
                   stderr = [''Error: '' @ message e], exit_code = 1\<rparr>)
             \<and> (names_of names' = Inr ef \<longrightarrow>
                  (prepare_input_data transaction_data ef (Some CATEGORICAL_MAPPING) = Inl e \<longrightarrow>
                     main env =
                       \<lparr>stdout = [''Model loaded successfully''] @ printed
                                   @ [''Expected features: '' @ show_features env names'],
                        stderr = [''Error: '' @ message e], exit_code = 1\<rparr>)
                  \<and> (\<exists>X' out.
                        prepare_input_data transaction_data ef (Some CATEGORICAL_MAPPING) =
                          Inr (X', out))
                  \<and> (prepare_input_data transaction_data ef (Some CATEGORICAL_MAPPING) =
                        Inr (X, printed') \<longrightarrow>
                       (predict_fraud model X = Inl e \<longrightarrow>
                          main env =
                            \<lparr>stdout = [''Model loaded successfully''] @ printed
                                        @ [''Expected features: '' @ show_features env names']
                                        @ printed',
                             stderr = [''Error: '' @ message e], exit_code = 1\<rparr>)
                       \<and> (predict_fraud model X = Inr (prediction, probability) \<longrightarrow>
                            exit_code (main env) = 0 \<and> stderr (main env) = []
                            \<and> stdout (main env) =
                                [''Model loaded successfully''] @ printed
                                @ [''Expected features: '' @ show_features env names'] @ printed'
                                @ (case prediction of
                                     None \<Rightarrow> []
                                   | Some p \<Rightarrow>
                                       [CHR 0x0A # ''Prediction Results:'',
                                        ''Fraud Prediction: '' @ py_str p @ '' (''
                                          @ (if equals_one p then ''Fraud'' else ''Legitimate'')
                                          @ '')'',
                                        ''Fraud Probability: '' @ format_4f env probability,
                                        (if 1 / 2 < probability
                                         then ''ALERT: This transaction is likely fraudulent!''
                                         else ''This transaction appears legitimate.'')]))))))
   \<and> (exit_code (main env) = 1 \<and> (\<exists>e'. stderr (main env) = [''Error: '' @ message e'])
        \<or> exit_code (main env) = 0 \<and> stderr (main env) = [])
   \<and> (exit_code (main env) = 0 \<longleftrightarrow>
        (\<exists>model names cf tc printed names' ef X printed' prediction probability.
           load_model_with_metadata (joblib_load env) MODEL_PATH = Inr (model, names, cf, tc)
           \<and> determine_features env model names = (printed, Inr names')
           \<and> names_of names' = Inr ef
           \<and> prepare_input_data transaction_data ef (Some CATEGORICAL_MAPPING) = Inr (X, printed')
           \<and> predict_fraud model X = Inr (prediction, probability)))"
proof (intro conjI impI)
  assume "joblib_load env MODEL_PATH = Inl e"
  then show "main env =
        \<lparr>stdout = [], stderr = [''Error: Error loading model: '' @ message e], exit_code = 1\<rparr>"
    by (rule main_load_failure)
next
  assume "load_model_with_metadata (joblib_load env) MODEL_PATH = Inr (model, names, cf, tc)"
    and "determine_features env model names = (printed, Inl e)"
  then show "main env =
             \<lparr>stdout = [''Model loaded successfully''] @ printed,
              stderr = [''Error: '' @ message e], exit_code = 1\<rparr>"
    by (rule main_features_failure)
next
  assume load: "load_model_with_metadata (joblib_load env) MODEL_PATH = Inr (model, names, cf, tc)"
    and "truth env names = Inr False \<and> getattr_feature_names_in model = None"
  then obtain out where "determine_features env model names =
      (out, Inl (Exn ValueError ''Could not determine required features for model''))"
    using determine_features_undeterminable by blast
  from main_features_failure [OF load this]
  show "exit_code (main env) = 1"
    and "stderr (main env) = [''Error: Could not determine required features for model'']"
    by simp_all
next
  assume "load_model_with_metadata (joblib_load env) MODEL_PATH = Inr (model, names, cf, tc)"
    and "determine_features env model names = (printed, Inr names')"
    and "names_of names' = Inl e"
  then show "main env =
                  \<lparr>stdout = [''Model loaded successfully''] @ printed
                              @ [''Expected features: '' @ show_features env names'],
                   stderr = [''Error: '' @ message e], exit_code = 1\<rparr>"
    by (rule main_names_failure)
next
  assume "load_model_with_metadata (joblib_load env) MODEL_PATH = Inr (model, names, cf, tc)"
    and "determine_features env model names = (printed, Inr names')"
    and "names_of names' = Inr ef"
    and "prepare_input_data transaction_data ef (Some CATEGORICAL_MAPPING) = Inl e"
  then show "main env =
                       \<lparr>stdout = [''Model loaded successfully''] @ printed
                                   @ [''Expected features: '' @ show_features env names'],
                        stderr = [''Error: '' @ message e], exit_code = 1\<rparr>"
    by (rule main_builder_failure)
next
  assume "determine_features env model names = (printed, Inr names')"
    and "names_of names' = Inr ef"
  then show "\<exists>X' out.
                prepare_input_data transaction_data ef (Some CATEGORICAL_MAPPING) = Inr (X', out)"
    by (rule main_builder_total)
next
  assume "load_model_with_metadata (joblib_load env) MODEL_PATH = Inr (model, names, cf, tc)"
    and "determine_features env model names = (printed, Inr names')"
    and "names_of names' = Inr ef"
    and "prepare_input_data transaction_data ef (Some CATEGORICAL_MAPPING) = Inr (X, printed')"
    and "predict_fraud model X = Inl e"
  then show "main env =
                            \<lparr>stdout = [''Model loaded successfully''] @ printed
                                        @ [''Expected features: '' @ show_features env names']
                                        @ printed',
                             stderr = [''Error: '' @ message e], exit_code = 1\<rparr>"
    by (rule main_prediction_failure)
next
  assume "load_model_with_metadata (joblib_load env) MODEL_PATH = Inr (model, names, cf, tc)"
    and "determine_features env model names = (printed, Inr names')"
    and "names_of names' = Inr ef"
    and "prepare_input_data transaction_data ef (Some CATEGORICAL_MAPPING) = Inr (X, printed')"
    and "predict_fraud model X = Inr (prediction, probability)"
  then have m: "main env =
           \<lparr>stdout = [''Model loaded successfully''] @ printed
                       @ [''Expected features: '' @ show_features env names'] @ printed'
                       @ report env prediction probability,
            stderr = [], exit_code = 0\<rparr>"
    by (rule main_success)
  from m show "exit_code (main env) = 0" and "stderr (main env) = []"
    by simp_all
  from m show "stdout (main env) =
                                [''Model loaded successfully''] @ printed
                                @ [''Expected features: '' @ show_features env names'] @ printed'
                                @ (case prediction of
                                     None \<Rightarrow> []
                                   | Some p \<Rightarrow>
                                       [CHR 0x0A # ''Prediction Results:'',
                                        ''Fraud Prediction: '' @ py_str p @ '' (''
                                          @ (if equals_one p then ''Fraud'' else ''Legitimate'')
                                          @ '')'',
                                        ''Fraud Probability: '' @ format_4f env probability,
                                        (if 1 / 2 < probability
                                         then ''ALERT: This transaction is likely fraudulent!''
                                         else ''This transaction appears legitimate.'')])"
    by (simp add: report_def threshold_def split: option.splits)
next
  show "exit_code (main env) = 1 \<and> (\<exists>e'. stderr (main env) = [''Error: '' @ message e'])
        \<or> exit_code (main env) = 0 \<and> stderr (main env) = []"
    by (rule main_dichotomy)
next
  show "exit_code (main env) = 0 \<longleftrightarrow>
        (\<exists>model names cf tc printed names' ef X printed' prediction probability.
           load_model_with_metadata (joblib_load env) MODEL_PATH = Inr (model, names, cf, tc)
           \<and> determine_features env model names = (printed, Inr names')
           \<and> names_of names' = Inr ef
           \<and> prepare_input_data transaction_data ef (Some CATEGORICAL_MAPPING) = Inr (X, printed')
           \<and> predict_fraud model X = Inr (prediction, probability))"
    by (rule main_exit_zero_iff)
qed

text \<open>
  Six runs. No file at the path. A bare model that records 37 feature names: the array
  of them has no truth value and the second \<^verbatim>\<open>if not feature_names\<close> raises. A bare model
  that records none. Metadata whose feature names are an object that cannot be iterated.
  The recorded run of the notebook: its two lines on standard output and its line on
  standard error are those of the output cell. And a run that succeeds.
\<close>

theorem main_exit_status_witness:
  "main ((file_environment PyNone)
           \<lparr>joblib_load := (\<lambda>path. Inl (Exn FileNotFoundError ''No such file or directory''))\<rparr>) =
     \<lparr>stdout = [], stderr = [''Error: Error loading model: No such file or directory''],
      exit_code = 1\<rparr>
   \<and> main (file_environment
             (PyModel ((constant_model [Some (IntV 1)] [[1 / 4, 3 / 4]])
                         \<lparr>feature_names_in := Some reference_features\<rparr>))) =
       \<lparr>stdout = [''Model loaded successfully'',
                   ''Warning: No feature names found in model metadata''],
        stderr = [''Error: The truth value of an array with more than one element is ambiguous. Use a.any() or a.all()''],
        exit_code = 1\<rparr>
   \<and> exit_code (main (file_environment (PyModel (constant_model [Some (IntV 1)] [[1 / 4, 3 / 4]]))))
       = 1
   \<and> stderr (main (file_environment (PyModel (constant_model [Some (IntV 1)] [[1 / 4, 3 / 4]]))))
       = [''Error: Could not determine required features for model'']
   \<and> exit_code
         (main (file_environment
            (PyDict [(''model'', PyModel (constant_model [Some (IntV 1)] [[1 / 4, 3 / 4]])),
                     (''feature_names'',
                      PyModel ((constant_model [] [])
                                 \<lparr>class_name := ''LogisticRegression'', is_pipeline := False\<rparr>))])))
       = 1
   \<and> stderr
         (main (file_environment
            (PyDict [(''model'', PyModel (constant_model [Some (IntV 1)] [[1 / 4, 3 / 4]])),
                     (''feature_names'',
                      PyModel ((constant_model [] [])
                                 \<lparr>class_name := ''LogisticRegression'', is_pipeline := False\<rparr>))])))
       = [''Error: 'LogisticRegression' object is not iterable'']
   \<and> main (file_environment
             (PyDict [(''model'', PyModel (column_checking recorded_training_columns
                                            (constant_model [Some (IntV 1)] [[1 / 4, 3 / 4]]))),
                      (''feature_names'', PyList reference_features)])) =
       \<lparr>stdout = [''Model loaded successfully'',
                   ''Expected features: '' @ list_repr reference_features],
        stderr = [''Error: Prediction error: columns are missing: {'Device_Type', 'Authentication_Method', 'Merchant_Category', 'Location', 'Transaction_Type'}''],
        exit_code = 1\<rparr>
   \<and> main (file_environment
             (PyDict [(''model'', PyModel (constant_model [Some (IntV 1)] [[1 / 4, 3 / 4]])),
                      (''feature_names'', PyList reference_features)])) =
       \<lparr>stdout = [''Model loaded successfully'',
                   ''Expected features: '' @ list_repr reference_features,
                   CHR 0x0A # ''Prediction Results:'',
                   ''Fraud Prediction: 1 (Fraud)'',
                   ''Fraud Probability: 0.7500'',
                   ''ALERT: This transaction is likely fraudulent!''],
        stderr = [], exit_code = 0\<rparr>"
proof -
  let ?fitted = "constant_model [Some (IntV 1)] [[1 / 4, 3 / 4]]"
  let ?X = "DataFrame (final_values transaction_data reference_features CATEGORICAL_MAPPING)
              reference_features"
  let ?env1 = "(file_environment PyNone)
                 \<lparr>joblib_load := (\<lambda>path. Inl (Exn FileNotFoundError ''No such file or directory''))\<rparr>"
  let ?env2 = "file_environment (PyModel ?fitted)"
  let ?m3 = "PyModel (column_checking recorded_training_columns ?fitted)"
  let ?env3 = "file_environment (PyDict [(''model'', ?m3), (''feature_names'', PyList reference_features)])"
  let ?env4 = "file_environment
                 (PyDict [(''model'', PyModel ?fitted), (''feature_names'', PyList reference_features)])"
  let ?m5 = "PyModel (?fitted\<lparr>feature_names_in := Some reference_features\<rparr>)"
  let ?env5 = "file_environment ?m5"
  let ?lr = "PyModel ((constant_model [] [])
                        \<lparr>class_name := ''LogisticRegression'', is_pipeline := False\<rparr>)"
  let ?env6 = "file_environment (PyDict [(''model'', PyModel ?fitted), (''feature_names'', ?lr)])"
  let ?ambiguous = "Exn ValueError
       ''The truth value of an array with more than one element is ambiguous. Use a.any() or a.all()''"
  let ?missing = "Exn ValueError ''Prediction error: columns are missing: {'Device_Type', 'Authentication_Method', 'Merchant_Category', 'Location', 'Transaction_Type'}''"
  have 1: "joblib_load ?env1 MODEL_PATH = Inl (Exn FileNotFoundError ''No such file or directory'')"
    by simp
  have 2: "load_model_with_metadata (joblib_load ?env2) MODEL_PATH =
             Inr (PyModel ?fitted, PyList [], PyList [], PyList [])"
    "truth ?env2 (PyList []) = Inr False \<and> getattr_feature_names_in (PyModel ?fitted) = None"
    by (simp_all add: load_model_with_metadata_def file_environment_def constant_model_def)
  have 3: "predict_fraud ?m3 ?X = Inl ?missing"
    by (simp add: predict_fraud_def predict_fraud_try_def column_checking_def check_columns_def
          recorded_missing recorded_set_repr)
  have 5: "load_model_with_metadata (joblib_load ?env5) MODEL_PATH =
             Inr (?m5, PyList [], PyList [], PyList [])"
    "determine_features ?env5 ?m5 (PyList []) =
       ([''Warning: No feature names found in model metadata''], Inl ?ambiguous)"
    by (simp_all add: load_model_with_metadata_def file_environment_def determine_features_def
          reference_features_def)
  have 6: "load_model_with_metadata (joblib_load ?env6) MODEL_PATH =
             Inr (PyModel ?fitted, ?lr, PyList [], PyList [])"
    "determine_features ?env6 (PyModel ?fitted) ?lr = ([], Inr ?lr)"
    "names_of ?lr =
       Inl (Exn TypeError (squote ''LogisticRegression'' @ '' object is not iterable''))"
    by (simp_all add: load_model_with_metadata_def file_environment_def dict_get_def
          determine_features_def constant_model_def)
  have stages: "determine_features env model (PyList reference_features) =
                  ([], Inr (PyList reference_features))
                \<and> names_of (PyList reference_features) = Inr reference_features
                \<and> prepare_input_data transaction_data reference_features (Some CATEGORICAL_MAPPING) =
                    Inr (?X, [])" for env model
    by (simp add: reference_names reference_frame)
  from 1 main_exit_status [of ?env1 "Exn FileNotFoundError ''No such file or directory''"]
  have a: "main ?env1 =
             \<lparr>stdout = [], stderr = [''Error: Error loading model: No such file or directory''],
              exit_code = 1\<rparr>"
    by simp
  from 5 main_exit_status [of ?env5 ?ambiguous ?m5 "PyList []" "PyList []" "PyList []"
         "[''Warning: No feature names found in model metadata'']"]
  have b: "main ?env5 =
       \<lparr>stdout = [''Model loaded successfully'',
                   ''Warning: No feature names found in model metadata''],
        stderr = [''Error: The truth value of an array with more than one element is ambiguous. Use a.any() or a.all()''],
        exit_code = 1\<rparr>"
    by simp
  from 2 main_exit_status [of ?env2 _ "PyModel ?fitted" "PyList []" "PyList []" "PyList []"]
  have c: "exit_code (main ?env2) = 1
             \<and> stderr (main ?env2) = [''Error: Could not determine required features for model'']"
    by blast
  from 6 main_exit_status [of ?env6
         "Exn TypeError (squote ''LogisticRegression'' @ '' object is not iterable'')"
         "PyModel ?fitted" ?lr "PyList []" "PyList []" "[]" ?lr]
  have "main ?env6 =
          \<lparr>stdout = [''Model loaded successfully''] @ []
                      @ [''Expected features: '' @ show_features ?env6 ?lr],
           stderr = [''Error: '' @ message (Exn TypeError
                        (squote ''LogisticRegression'' @ '' object is not iterable''))],
           exit_code = 1\<rparr>"
    by blast
  then have d: "exit_code (main ?env6) = 1
             \<and> stderr (main ?env6) = [''Error: 'LogisticRegression' object is not iterable'']"
    by (simp add: squote_def)
  from 3 stages [of ?env3 ?m3] reference_load [of ?m3]
    main_exit_status [of ?env3 ?missing ?m3 "PyList reference_features" "PyList []" "PyList []" "[]"
      "PyList reference_features" reference_features ?X "[]"]
  have e: "main ?env3 =
       \<lparr>stdout = [''Model loaded successfully'',
                   ''Expected features: '' @ list_repr reference_features],
        stderr = [''Error: Prediction error: columns are missing: {'Device_Type', 'Authentication_Method', 'Merchant_Category', 'Location', 'Transaction_Type'}''],
        exit_code = 1\<rparr>"
    by (simp add: file_environment_def)
  have 4: "predict_fraud (PyModel ?fitted) ?X = Inr (Some (IntV 1), 3 / 4)"
    by (rule predict_fraud_constant_model)
  have fmt: "four_decimals (3 / 4) = ''0.7500''" "str_int 1 = ''1''"
    by (simp_all add: four_decimals_def round_half_even_def str_int_def str_nat_digit
          str_nat_more digit_char_def Let_def floor_numeral_divide)
  from 4 stages [of ?env4 "PyModel ?fitted"] reference_load [of "PyModel ?fitted"]
    main_exit_status [of ?env4 _ "PyModel ?fitted" "PyList reference_features" "PyList []" "PyList []"
      "[]" "PyList reference_features" reference_features ?X "[]" "Some (IntV 1)" "3 / 4"]
  have "exit_code (main ?env4) = 0 \<and> stderr (main ?env4) = []
        \<and> stdout (main ?env4) =
            [''Model loaded successfully'',
             ''Expected features: '' @ list_repr reference_features,
             CHR 0x0A # ''Prediction Results:'',
             ''Fraud Prediction: 1 (Fraud)'',
             ''Fraud Probability: 0.7500'',
             ''ALERT: This transaction is likely fraudulent!'']"
    by (simp add: file_environment_def fmt)
  then have f: "main ?env4 =
       \<lparr>stdout = [''Model loaded successfully'',
                   ''Expected features: '' @ list_repr reference_features,
                   CHR 0x0A # ''Prediction Results:'',
                   ''Fraud Prediction: 1 (Fraud)'',
                   ''Fraud Probability: 0.7500'',
                   ''ALERT: This transaction is likely fraudulent!''],
        stderr = [], exit_code = 0\<rparr>"
    by (cases "main ?env4") simp
  from a b c d e f show ?thesis by blast
qed



end
